theory Spec2Isabelle
  imports Complex_Main
begin

section \<open>Python strings\<close>

text \<open>
  A Python \<open>str\<close> is a sequence of Unicode code points: \<open>len\<close>, slicing and the
  ellipsis character all count code points, so a string is a list of code points.
  Dictionary keys, icon names and font names of the source are ASCII literals and are
  kept as HOL strings.
\<close>

type_synonym pystr = "nat list"

definition ascii :: "string \<Rightarrow> pystr" where
  "ascii s = map of_char s"

definition space :: nat where
  "space = 32"

definition ellipsis :: nat where
  "ellipsis = 8230"

definition right_arrow :: nat where
  "right_arrow = 8594"

text \<open>The code points that \<open>str.split()\<close> and \<open>str.strip()\<close> treat as whitespace.\<close>

definition is_space :: "nat \<Rightarrow> bool" where
  "is_space c \<longleftrightarrow>
     c \<in> set [9, 10, 11, 12, 13, 28, 29, 30, 31, 32, 133, 160, 5760,
               8232, 8233, 8239, 8287, 12288]
     \<or> (8192 \<le> c \<and> c \<le> 8202)"

text \<open>\<open>text.split()\<close>: the maximal runs of non-whitespace, in order.\<close>

fun split_ws :: "pystr \<Rightarrow> pystr \<Rightarrow> pystr list" where
  "split_ws [] cur = (if cur = [] then [] else [cur])"
| "split_ws (c # cs) cur =
     (if is_space c then (if cur = [] then split_ws cs [] else cur # split_ws cs [])
      else split_ws cs (cur @ [c]))"

definition py_split :: "pystr \<Rightarrow> pystr list" where
  "py_split s = split_ws s []"

definition py_lstrip :: "pystr \<Rightarrow> pystr" where
  "py_lstrip s = dropWhile is_space s"

definition py_rstrip :: "pystr \<Rightarrow> pystr" where
  "py_rstrip s = rev (dropWhile is_space (rev s))"

definition py_strip :: "pystr \<Rightarrow> pystr" where
  "py_strip s = py_rstrip (py_lstrip s)"

text \<open>\<open>" ".join(ws)\<close>\<close>

fun join_space :: "pystr list \<Rightarrow> pystr" where
  "join_space [] = []"
| "join_space [w] = w"
| "join_space (w # ws) = w @ [space] @ join_space ws"

text \<open>\<open>xs[:n]\<close>: a negative bound counts from the end.\<close>

definition slice_to :: "int \<Rightarrow> 'a list \<Rightarrow> 'a list" where
  "slice_to n xs = (if 0 \<le> n then take (nat n) xs else take (length xs - nat (- n)) xs)"

section \<open>Exceptions\<close>

text \<open>
  Every collaborator call may raise. What is raised is either an instance of
  \<open>Exception\<close>, which \<open>except Exception\<close> catches, or an instance of \<open>BaseException\<close>
  that is not an \<open>Exception\<close> (\<open>KeyboardInterrupt\<close>, \<open>SystemExit\<close>), which it does not
  catch. The string is the exception's text, which the handler writes to the log.
\<close>

datatype exn = Exception string | Base_exception string

fun exn_text :: "exn \<Rightarrow> string" where
  "exn_text (Exception msg) = msg"
| "exn_text (Base_exception msg) = msg"

section \<open>The line-wrapping routine of the clean-final version\<close>

text \<open>
  \<open>wrap2_ellips(text, font, max_w, max_lines=2)\<close>. The closure \<open>text_width\<close> with the font
  fixed is the parameter \<open>tw\<close>; it calls the drawing backend and may raise.

  The inner \<open>while\<close> loop drops the last code point and strips trailing whitespace
  until the text with an ellipsis fits or three code points are left.
\<close>

function shrink :: "(pystr \<Rightarrow> exn + int) \<Rightarrow> int \<Rightarrow> pystr \<Rightarrow> exn + pystr" where
  "shrink tw max_w rest =
     (case tw (rest @ [ellipsis]) of
        Inl e \<Rightarrow> Inl e
      | Inr wd \<Rightarrow>
          if wd > max_w \<and> length rest > 3
          then shrink tw max_w (py_rstrip (butlast rest))
          else Inr rest)"
  by pat_completeness auto

lemma length_py_rstrip_le: "length (py_rstrip s) \<le> length s"
proof -
  have "length (dropWhile is_space (rev s)) \<le> length (rev s)"
    by (rule length_dropWhile_le)
  then show ?thesis by (simp add: py_rstrip_def)
qed

termination shrink
proof (relation "measure (\<lambda>(tw, max_w, rest). length rest)")
  show "wf (measure (\<lambda>(tw, max_w, rest). length rest))" by simp
next
  fix tw :: "pystr \<Rightarrow> exn + int" and max_w :: int and rest :: pystr and wd :: int
  assume "wd > max_w \<and> length rest > 3"
  then have "rest \<noteq> []" by auto
  then have "length (butlast rest) < length rest" by simp
  moreover have "length (py_rstrip (butlast rest)) \<le> length (butlast rest)"
    by (rule length_py_rstrip_le)
  ultimately show "((tw, max_w, py_rstrip (butlast rest)), (tw, max_w, rest))
      \<in> measure (\<lambda>(tw, max_w, rest). length rest)"
    by simp
qed

declare shrink.simps [simp del]

text \<open>
  The \<open>for i, w in enumerate(words)\<close> loop. The last argument is \<open>words[i:]\<close>, the words
  not yet placed, so that \<open>rest_words\<close> is the whole argument at the early return.
\<close>

fun wrap_loop ::
  "(pystr \<Rightarrow> exn + int) \<Rightarrow> int \<Rightarrow> int \<Rightarrow> pystr list \<Rightarrow> pystr \<Rightarrow> pystr list
     \<Rightarrow> exn + pystr list" where
  "wrap_loop tw max_w max_lines lines cur [] =
     Inr (slice_to max_lines (if cur \<noteq> [] then lines @ [cur] else lines))"
| "wrap_loop tw max_w max_lines lines cur (w # ws) =
     (case tw (py_strip (cur @ [space] @ w)) of
        Inl e \<Rightarrow> Inl e
      | Inr wd \<Rightarrow>
          if wd \<le> max_w
          then wrap_loop tw max_w max_lines lines (py_strip (cur @ [space] @ w)) ws
          else if int (length (if cur \<noteq> [] then lines @ [cur] else lines)) = max_lines - 1
          then (case shrink tw max_w (join_space (w # ws)) of
                  Inl e \<Rightarrow> Inl e
                | Inr rest \<Rightarrow>
                    Inr ((if cur \<noteq> [] then lines @ [cur] else lines)
                         @ [rest @ (if length rest < length (join_space (w # ws))
                                    then [ellipsis] else [])]))
          else wrap_loop tw max_w max_lines
                 (if cur \<noteq> [] then lines @ [cur] else lines) w ws)"

definition wrap2_ellips ::
  "(pystr \<Rightarrow> exn + int) \<Rightarrow> pystr \<Rightarrow> int \<Rightarrow> int \<Rightarrow> exn + pystr list" where
  "wrap2_ellips tw text max_w max_lines =
     (if py_split text = [] then Inr [text]
      else wrap_loop tw max_w max_lines [] [] (py_split text))"

section \<open>Collaborators and effects\<close>

text \<open>
  The renderer paints through its base class and the drawing backend. Each effectful
  call it issues is recorded, in order: \<open>self.draw.rectangle\<close> (the two corners, outline
  and width), \<open>self.draw.text\<close>, \<open>self.draw_text_with_fallback\<close> (anchor, text, font,
  fill) and \<open>self.paste_icon_on_canvas\<close> (icon, left, top). A font is what
  \<open>self.fonts.get\<close> returns, so it may be \<open>None\<close>.
\<close>

datatype ('font, 'icon) draw_call =
    Rectangle "int \<times> int" "int \<times> int" int int
  | Text "int \<times> int" pystr "'font option" int
  | Text_with_fallback "int \<times> int" pystr "'font option" int
  | Paste_icon 'icon int int

text \<open>
  A log line is its level and the constant part of its message in ASCII; the values
  interpolated into the message are left out.
\<close>

datatype level = Info | Warning | Error

type_synonym log_entry = "level \<times> string"

text \<open>The last argument of \<open>safe_get_value\<close>: the conversion to apply.\<close>

datatype py_type = Float_type | Int_type | Str_type

text \<open>
  A computation is its outcome (the exception raised, or the value returned), the draw
  calls it issued and the log lines it wrote, both in order. A call that raises has
  still been issued.
\<close>

type_synonym ('a, 'c) act = "(exn + 'a) \<times> 'c list \<times> log_entry list"

definition outcome :: "('a, 'c) act \<Rightarrow> exn + 'a" where
  "outcome m = fst m"

definition calls :: "('a, 'c) act \<Rightarrow> 'c list" where
  "calls m = fst (snd m)"

definition logs :: "('a, 'c) act \<Rightarrow> log_entry list" where
  "logs m = snd (snd m)"

definition ret :: "'a \<Rightarrow> ('a, 'c) act" where
  "ret a = (Inr a, [], [])"

definition bind_act :: "('a, 'c) act \<Rightarrow> ('a \<Rightarrow> ('b, 'c) act) \<Rightarrow> ('b, 'c) act" where
  "bind_act m f =
     (case outcome m of
        Inl e \<Rightarrow> (Inl e, calls m, logs m)
      | Inr a \<Rightarrow> (outcome (f a), calls m @ calls (f a), logs m @ logs (f a)))"

text \<open>
  \<open>try: body except Exception as e: handler\<close>. The handler runs for an instance of
  \<open>Exception\<close> only; any other exception leaves the statement as it was raised.
\<close>

definition try_except :: "('a, 'c) act \<Rightarrow> (exn \<Rightarrow> ('a, 'c) act) \<Rightarrow> ('a, 'c) act" where
  "try_except m h =
     (case outcome m of
        Inl (Exception msg) \<Rightarrow>
          (outcome (h (Exception msg)), calls m @ calls (h (Exception msg)),
           logs m @ logs (h (Exception msg)))
      | Inl (Base_exception msg) \<Rightarrow> (Inl (Base_exception msg), calls m, logs m)
      | Inr a \<Rightarrow> (Inr a, calls m, logs m))"

text \<open>
  The collaborators, which are not part of this repository's renderer files: the base
  class \<open>ModuleRenderer\<close> (\<open>safe_get_value\<close>, \<open>get_text_bounds\<close>,
  \<open>render_fallback_content\<close>), the icon manager, the font registry and the drawing
  backend. Each is taken as a parameter and answers as a function of its arguments;
  each call may raise. \<open>draw_raises\<close> says which draw calls raise.
  \<open>render_fallback_content\<close> paints and logs on its own and returns a boolean or raises.
  The last three fields are Python built-ins that the renderer applies to values it does
  not compute with: \<open>format(v, ".1f")\<close>, \<open>str.upper\<close> and \<open>str.lower\<close>.
  The type \<open>'f\<close> stands for Python floats and \<open>'v\<close> for the values of the mappings.
\<close>

record ('v, 'f, 'font, 'icon) collaborators =
  safe_get_value :: "(string \<rightharpoonup> 'v) \<Rightarrow> string \<Rightarrow> 'f \<Rightarrow> py_type \<Rightarrow> exn + 'f"
  get_wind_description_swedish :: "'f \<Rightarrow> exn + pystr"
  get_wind_direction_info :: "'f \<Rightarrow> exn + pystr \<times> pystr"
  get_system_icon :: "string \<Rightarrow> int \<times> int \<Rightarrow> exn + 'icon option"
  get_wind_icon :: "pystr \<Rightarrow> int \<times> int \<Rightarrow> exn + 'icon option"
  fonts :: "string \<rightharpoonup> 'font"
  textbbox :: "int \<times> int \<Rightarrow> pystr \<Rightarrow> 'font option \<Rightarrow> exn + int \<times> int \<times> int \<times> int"
  get_text_bounds :: "pystr \<Rightarrow> 'font option \<Rightarrow> exn + int \<times> int"
  draw_raises :: "('font, 'icon) draw_call \<Rightarrow> exn option"
  render_fallback_content ::
    "int \<Rightarrow> int \<Rightarrow> int \<Rightarrow> int \<Rightarrow> pystr \<Rightarrow> (bool, ('font, 'icon) draw_call) act"
  format_1f :: "'f \<Rightarrow> pystr"
  str_upper :: "pystr \<Rightarrow> pystr"
  str_lower :: "pystr \<Rightarrow> pystr"

text \<open>A query to a collaborator: no draw call, no log line.\<close>

definition ask :: "exn + 'a \<Rightarrow> ('a, 'c) act" where
  "ask r = (r, [], [])"

definition issue ::
  "('v, 'f, 'font, 'icon) collaborators \<Rightarrow> ('font, 'icon) draw_call
     \<Rightarrow> (unit, ('font, 'icon) draw_call) act" where
  "issue env c = ((case draw_raises env c of None \<Rightarrow> Inr () | Some e \<Rightarrow> Inl e), [c], [])"

text \<open>
  \<open>self.logger\<close> is a logger of Python's \<open>logging\<close>, which handles the errors of its own
  handlers: a logging call writes its line and returns.
\<close>

definition logger :: "level \<Rightarrow> string \<Rightarrow> (unit, 'c) act" where
  "logger lvl msg = (Inr (), [], [(lvl, msg)])"

text \<open>\<open>self.fonts.get(key, default)\<close>\<close>

definition fonts_get :: "(string \<rightharpoonup> 'font) \<Rightarrow> string \<Rightarrow> 'font option \<Rightarrow> 'font option" where
  "fonts_get fs key dflt = (case fs key of Some f \<Rightarrow> Some f | None \<Rightarrow> dflt)"

text \<open>The placeholder text \<open>"Wind-data ej tillg\<dots>nglig"\<close>, with U+00E4 for the a-umlaut.\<close>

definition placeholder :: pystr where
  "placeholder = ascii ''Wind-data ej tillg'' @ [228] @ ascii ''nglig''"

definition ms_text_of :: "('v, 'f, 'font, 'icon) collaborators \<Rightarrow> 'f \<Rightarrow> pystr" where
  "ms_text_of env wind_speed = format_1f env wind_speed @ ascii '' m/s''"

section \<open>The four versions of \<open>WindRenderer\<close>\<close>

datatype version =
    Layout_fix_0815
  | Layout_fix_0817
  | Text_bounds_fix
  | Clean_final

subsection \<open>\<open>wind_layout_fix_20250815_175437\<close>: the body of \<open>render\<close>'s \<open>try\<close>\<close>

definition render_body_layout_fix_0815 ::
  "('v, 'f::zero, 'font, 'icon) collaborators \<Rightarrow> int \<Rightarrow> int \<Rightarrow> int \<Rightarrow> int
     \<Rightarrow> (string \<rightharpoonup> 'v) \<Rightarrow> (string \<rightharpoonup> 'v) \<Rightarrow> (bool, ('font, 'icon) draw_call) act" where
  "render_body_layout_fix_0815 env x y width height weather_data context_data =
     bind_act (logger Info ''Renderar wind-modul'') (\<lambda>_.
     bind_act (ask (safe_get_value env weather_data ''wind_speed'' 0 Float_type)) (\<lambda>wind_speed.
     bind_act (ask (safe_get_value env weather_data ''wind_direction'' 0 Float_type)) (\<lambda>wind_direction.
     bind_act (ask (get_wind_description_swedish env wind_speed)) (\<lambda>speed_description.
     bind_act (ask (get_wind_direction_info env wind_direction)) (\<lambda>(direction_short, cardinal_code).
     bind_act (ask (get_system_icon env ''strong-wind'' (48, 48))) (\<lambda>general_wind_icon.
     let icon_center_x = x + (width div 2) - 24 in
     bind_act (case general_wind_icon of
                 Some icon \<Rightarrow> issue env (Paste_icon icon icon_center_x (y + 15))
               | None \<Rightarrow> ret ()) (\<lambda>_.
     let ms_text = ms_text_of env wind_speed;
         ms_center_x = x + (width div 2) in
     bind_act (issue env (Text_with_fallback (ms_center_x - 50, y + 75) ms_text
                 (fonts_get (fonts env) ''hero_temp'' (fonts_get (fonts env) ''small_main'' None)) 0)) (\<lambda>_.
     let desc_center_x = x + (width div 2) in
     bind_act (issue env (Text_with_fallback (desc_center_x - 40, y + 115) speed_description
                 (fonts_get (fonts env) ''medium_desc'' (fonts_get (fonts env) ''small_desc'' None)) 0)) (\<lambda>_.
     bind_act (ask (get_wind_icon env cardinal_code (32, 32))) (\<lambda>cardinal_icon.
     let cardinal_center_x = x + (width div 2) - 16 in
     bind_act (case cardinal_icon of
                 Some icon \<Rightarrow> issue env (Paste_icon icon cardinal_center_x (y + 150))
               | None \<Rightarrow> ret ()) (\<lambda>_.
     let direction_x = cardinal_center_x + 40 in
     bind_act (issue env (Text_with_fallback (direction_x, y + 155) direction_short
                 (fonts_get (fonts env) ''medium_desc'' (fonts_get (fonts env) ''small_desc'' None)) 0)) (\<lambda>_.
     bind_act (logger Info ''Cykel-optimerad wind-modul rendered'') (\<lambda>_.
     ret True)))))))))))))"

subsection \<open>\<open>wind_layout_fix_20250817_164437\<close>\<close>

definition render_body_layout_fix_0817 ::
  "('v, 'f::zero, 'font, 'icon) collaborators \<Rightarrow> int \<Rightarrow> int \<Rightarrow> int \<Rightarrow> int
     \<Rightarrow> (string \<rightharpoonup> 'v) \<Rightarrow> (string \<rightharpoonup> 'v) \<Rightarrow> (bool, ('font, 'icon) draw_call) act" where
  "render_body_layout_fix_0817 env x y width height weather_data context_data =
     bind_act (logger Info ''Renderar HORISONTELL wind-modul'') (\<lambda>_.
     bind_act (ask (safe_get_value env weather_data ''wind_speed'' 0 Float_type)) (\<lambda>wind_speed.
     bind_act (ask (safe_get_value env weather_data ''wind_direction'' 0 Float_type)) (\<lambda>wind_direction.
     bind_act (ask (get_wind_description_swedish env wind_speed)) (\<lambda>speed_description.
     bind_act (ask (get_wind_direction_info env wind_direction)) (\<lambda>(direction_short, cardinal_code).
     bind_act (ask (get_system_icon env ''strong-wind'' (48, 48))) (\<lambda>general_wind_icon.
     let icon_x = x + 20;
         icon_y = y + 25 in
     bind_act (case general_wind_icon of
                 Some icon \<Rightarrow> issue env (Paste_icon icon icon_x icon_y)
               | None \<Rightarrow> ret ()) (\<lambda>_.
     let ms_text = ms_text_of env wind_speed;
         ms_x = icon_x + 60;
         ms_y = y + 35 in
     bind_act (issue env (Text_with_fallback (ms_x, ms_y) ms_text
                 (fonts_get (fonts env) ''hero_temp'' (fonts_get (fonts env) ''small_main'' None)) 0)) (\<lambda>_.
     let desc_x = ms_x;
         desc_y = ms_y + 50 in
     bind_act (issue env (Text_with_fallback (desc_x, desc_y) speed_description
                 (fonts_get (fonts env) ''medium_desc'' (fonts_get (fonts env) ''small_desc'' None)) 0)) (\<lambda>_.
     bind_act (ask (get_wind_icon env cardinal_code (32, 32))) (\<lambda>cardinal_icon.
     let cardinal_x = x + 30;
         cardinal_y = y + height - 50 in
     bind_act (case cardinal_icon of
                 Some icon \<Rightarrow> issue env (Paste_icon icon cardinal_x cardinal_y)
               | None \<Rightarrow> ret ()) (\<lambda>_.
     let direction_x = cardinal_x + 40;
         direction_y = cardinal_y + 5 in
     bind_act (issue env (Text_with_fallback (direction_x, direction_y) direction_short
                 (fonts_get (fonts env) ''medium_desc'' (fonts_get (fonts env) ''small_desc'' None)) 0)) (\<lambda>_.
     bind_act (logger Info ''HORISONTELL cykel-optimerad wind-modul rendered'') (\<lambda>_.
     ret True)))))))))))))"

subsection \<open>\<open>wind_text_bounds_fix_20250817_165040\<close>\<close>

text \<open>
  \<open>get_text_bounds\<close> returns a pair of which the renderer reads component 0 as the
  width of the text.
\<close>

definition render_body_text_bounds_fix ::
  "('v, 'f::zero, 'font, 'icon) collaborators \<Rightarrow> int \<Rightarrow> int \<Rightarrow> int \<Rightarrow> int
     \<Rightarrow> (string \<rightharpoonup> 'v) \<Rightarrow> (string \<rightharpoonup> 'v) \<Rightarrow> (bool, ('font, 'icon) draw_call) act" where
  "render_body_text_bounds_fix env x y width height weather_data context_data =
     bind_act (logger Info ''Renderar FIXAD SYMMETRISK wind-modul'') (\<lambda>_.
     bind_act (ask (safe_get_value env weather_data ''wind_speed'' 0 Float_type)) (\<lambda>wind_speed.
     bind_act (ask (safe_get_value env weather_data ''wind_direction'' 0 Float_type)) (\<lambda>wind_direction.
     bind_act (ask (get_wind_description_swedish env wind_speed)) (\<lambda>speed_description.
     bind_act (ask (get_wind_direction_info env wind_direction)) (\<lambda>(direction_short, cardinal_code).
     bind_act (issue env (Rectangle (x + 2, y + 2) (x + width - 2, y + height - 2) 0 2)) (\<lambda>_.
     let center_x = x + width div 2 in
     bind_act (ask (get_system_icon env ''strong-wind'' (40, 40))) (\<lambda>general_wind_icon.
     bind_act (case general_wind_icon of
                 Some icon \<Rightarrow> issue env (Paste_icon icon (center_x - 20) (y + 25))
               | None \<Rightarrow> ret ()) (\<lambda>_.
     let ms_text = ms_text_of env wind_speed;
         ms_font = fonts_get (fonts env) ''large_main'' (fonts_get (fonts env) ''medium_main'' None) in
     bind_act (ask (get_text_bounds env ms_text ms_font)) (\<lambda>text_bbox.
     let ms_x = center_x - fst text_bbox div 2;
         ms_y = y + 80 in
     bind_act (issue env (Text_with_fallback (ms_x, ms_y) ms_text ms_font 0)) (\<lambda>_.
     let desc_font = fonts_get (fonts env) ''medium_main'' (fonts_get (fonts env) ''small_main'' None) in
     bind_act (ask (get_text_bounds env speed_description desc_font)) (\<lambda>desc_bbox.
     let desc_x = center_x - fst desc_bbox div 2;
         desc_y = ms_y + 40 in
     bind_act (issue env (Text_with_fallback (desc_x, desc_y) speed_description desc_font 0)) (\<lambda>_.
     bind_act (ask (get_wind_icon env cardinal_code (24, 24))) (\<lambda>cardinal_icon.
     let direction_y_base = y + height - 45;
         direction_font = fonts_get (fonts env) ''small_main'' (fonts_get (fonts env) ''small_desc'' None) in
     bind_act (ask (get_text_bounds env direction_short direction_font)) (\<lambda>direction_text_bbox.
     let combined_width = 24 + 8 + fst direction_text_bbox;
         combined_x = center_x - combined_width div 2 in
     bind_act (case cardinal_icon of
                 Some icon \<Rightarrow> issue env (Paste_icon icon combined_x direction_y_base)
               | None \<Rightarrow> ret ()) (\<lambda>_.
     let direction_x = combined_x + 24 + 8;
         direction_y = direction_y_base + 2 in
     bind_act (issue env (Text_with_fallback (direction_x, direction_y) direction_short direction_font 0)) (\<lambda>_.
     bind_act (logger Info ''FIXAD SYMMETRISK cykel-optimerad wind-modul'') (\<lambda>_.
     ret True)))))))))))))))))"

subsection \<open>\<open>wind_clean_final_20250817_180020\<close>\<close>

text \<open>The design constants of the clean-final version.\<close>

definition PADDING :: int where
  "PADDING = 20"

definition ROW_GAP_PRIMARY :: int where
  "ROW_GAP_PRIMARY = 36"

definition RIGHT_ICON_SIZE :: "int \<times> int" where
  "RIGHT_ICON_SIZE = (32, 32)"

definition RIGHT_ICON_INSET :: int where
  "RIGHT_ICON_INSET = 24"

definition CARDINAL_ICON_SIZE :: "int \<times> int" where
  "CARDINAL_ICON_SIZE = (32, 32)"

definition CARDINAL_GAP :: int where
  "CARDINAL_GAP = 8"

definition BOTTOM_ZONE_INSET :: int where
  "BOTTOM_ZONE_INSET = 20"

definition MAX_DESC_WIDTH :: int where
  "MAX_DESC_WIDTH = 172"

definition MAX_DESC_LINES :: int where
  "MAX_DESC_LINES = 2"

definition LINE_GAP :: int where
  "LINE_GAP = 6"

definition RIGHT_COLUMN_W :: int where
  "RIGHT_COLUMN_W = fst RIGHT_ICON_SIZE + RIGHT_ICON_INSET"

definition PRIMARY_MAX_W :: "int \<Rightarrow> int" where
  "PRIMARY_MAX_W width = width - PADDING - RIGHT_COLUMN_W - PADDING"

text \<open>
  \<open>self.draw.textbbox\<close> returns a 4-tuple, read by index: \<open>bbox[0]\<close> to \<open>bbox[3]\<close>. The
  closures \<open>text_width\<close> and \<open>text_height\<close> measure with it.
\<close>

definition bbox_0 :: "int \<times> int \<times> int \<times> int \<Rightarrow> int" where
  "bbox_0 bbox = fst bbox"

definition bbox_1 :: "int \<times> int \<times> int \<times> int \<Rightarrow> int" where
  "bbox_1 bbox = fst (snd bbox)"

definition bbox_2 :: "int \<times> int \<times> int \<times> int \<Rightarrow> int" where
  "bbox_2 bbox = fst (snd (snd bbox))"

definition bbox_3 :: "int \<times> int \<times> int \<times> int \<Rightarrow> int" where
  "bbox_3 bbox = snd (snd (snd bbox))"

definition text_width ::
  "('v, 'f, 'font, 'icon) collaborators \<Rightarrow> pystr \<Rightarrow> 'font option \<Rightarrow> exn + int" where
  "text_width env t font =
     (case textbbox env (0, 0) t font of
        Inl e \<Rightarrow> Inl e
      | Inr bbox \<Rightarrow> Inr (bbox_2 bbox - bbox_0 bbox))"

definition text_height ::
  "('v, 'f, 'font, 'icon) collaborators \<Rightarrow> pystr \<Rightarrow> 'font option \<Rightarrow> exn + int" where
  "text_height env t font =
     (case textbbox env (0, 0) t font of
        Inl e \<Rightarrow> Inl e
      | Inr bbox \<Rightarrow> Inr (bbox_3 bbox - bbox_1 bbox))"

text \<open>\<open>for i, line in enumerate(desc_lines)\<close>: one text call per line.\<close>

fun draw_desc_lines ::
  "('v, 'f, 'font, 'icon) collaborators \<Rightarrow> int \<Rightarrow> int \<Rightarrow> 'font option \<Rightarrow> int \<Rightarrow> pystr list
     \<Rightarrow> (unit, ('font, 'icon) draw_call) act" where
  "draw_desc_lines env desc_x desc_y desc_font i [] = ret ()"
| "draw_desc_lines env desc_x desc_y desc_font i (line # rest) =
     bind_act (ask (text_height env line desc_font)) (\<lambda>h.
     let line_y = desc_y + i * (h + LINE_GAP) in
     bind_act (issue env (Text_with_fallback (desc_x, line_y) line desc_font 0)) (\<lambda>_.
     draw_desc_lines env desc_x desc_y desc_font (i + 1) rest))"

text \<open>\<open>for alt_code in alt_codes\<close>: the first alternative code with an icon, if any.\<close>

fun try_alt_codes ::
  "('v, 'f, 'font, 'icon) collaborators \<Rightarrow> pystr list
     \<Rightarrow> ('icon option, ('font, 'icon) draw_call) act" where
  "try_alt_codes env [] = ret None"
| "try_alt_codes env (alt_code # rest) =
     bind_act (ask (get_wind_icon env alt_code CARDINAL_ICON_SIZE)) (\<lambda>alt_icon.
     case alt_icon of
       Some icon \<Rightarrow> bind_act (logger Info ''Anvander alternativ kod'') (\<lambda>_. ret (Some icon))
     | None \<Rightarrow> try_alt_codes env rest)"

definition render_body_clean_final ::
  "('v, 'f::zero, 'font, 'icon) collaborators \<Rightarrow> int \<Rightarrow> int \<Rightarrow> int \<Rightarrow> int
     \<Rightarrow> (string \<rightharpoonup> 'v) \<Rightarrow> (string \<rightharpoonup> 'v) \<Rightarrow> (bool, ('font, 'icon) draw_call) act" where
  "render_body_clean_final env x y width height weather_data context_data =
     bind_act (logger Info ''Renderar PROFESSIONELL wind-modul'') (\<lambda>_.
     bind_act (ask (safe_get_value env weather_data ''wind_speed'' 0 Float_type)) (\<lambda>wind_speed.
     bind_act (ask (safe_get_value env weather_data ''wind_direction'' 0 Float_type)) (\<lambda>wind_direction.
     bind_act (ask (get_wind_description_swedish env wind_speed)) (\<lambda>speed_description.
     bind_act (ask (get_wind_direction_info env wind_direction)) (\<lambda>(direction_short, cardinal_code).
     bind_act (issue env (Rectangle (x + 2, y + 2) (x + width - 2, y + height - 2) 0 2)) (\<lambda>_.
     let left_x = x + PADDING;
         right_icon_x = x + width - RIGHT_ICON_INSET - fst RIGHT_ICON_SIZE;
         ms_text = ms_text_of env wind_speed;
         ms_font = fonts_get (fonts env) ''large_main'' (fonts_get (fonts env) ''medium_main'' None) in
     bind_act (ask (textbbox env (0, 0) ms_text ms_font)) (\<lambda>ms_bbox.
     let ms_x = left_x;
         ms_y = y + PADDING in
     bind_act (issue env (Text_with_fallback (ms_x, ms_y) ms_text ms_font 0)) (\<lambda>_.
     let desc_font = fonts_get (fonts env) ''small_main'' (fonts_get (fonts env) ''small_desc'' None);
         raw_desc = speed_description in
     bind_act (ask (wrap2_ellips (\<lambda>t. text_width env t desc_font) raw_desc
                 MAX_DESC_WIDTH MAX_DESC_LINES)) (\<lambda>desc_lines.
     let desc_x = left_x;
         ms_height = bbox_3 ms_bbox - bbox_1 ms_bbox;
         desc_y = ms_y + ms_height + ROW_GAP_PRIMARY in
     bind_act (draw_desc_lines env desc_x desc_y desc_font 0 desc_lines) (\<lambda>_.
     bind_act (ask (get_system_icon env ''strong-wind'' RIGHT_ICON_SIZE)) (\<lambda>wind_icon.
     bind_act (case wind_icon of
                 Some icon \<Rightarrow>
                   bind_act (ask (text_width env ms_text ms_font)) (\<lambda>ms_width.
                   let icon_x = right_icon_x;
                       ms_right_edge = ms_x + ms_width in
                   bind_act (if ms_right_edge + 12 > x + PADDING + PRIMARY_MAX_W width
                             then bind_act (logger Info ''Kollisionsskydd aktiverat - ikon flyttad'')
                                    (\<lambda>_. ret (desc_y - 4))
                             else ret (y + PADDING div 2)) (\<lambda>icon_y.
                   bind_act (issue env (Paste_icon icon icon_x icon_y)) (\<lambda>_.
                   logger Info ''Illustration-ikon renderad kollisionssakert'')))
               | None \<Rightarrow> logger Warning ''Illustration-ikon saknas'') (\<lambda>_.
     bind_act (ask (get_wind_icon env cardinal_code CARDINAL_ICON_SIZE)) (\<lambda>first_icon.
     let label_font = fonts_get (fonts env) ''small_main'' desc_font in
     bind_act (logger Info ''Cardinal code'') (\<lambda>_.
     bind_act (case first_icon of
                 Some icon \<Rightarrow>
                   bind_act (logger Info ''Cardinal ikon laddad'') (\<lambda>_. ret (Some icon))
               | None \<Rightarrow>
                   bind_act (logger Warning ''Cardinal ikon SAKNAS'') (\<lambda>_.
                   try_alt_codes env
                     [ascii ''n'', ascii ''N'', str_upper env cardinal_code,
                      str_lower env cardinal_code])) (\<lambda>cardinal_icon.
     bind_act (ask (text_width env direction_short label_font)) (\<lambda>label_w.
     let icon_w = (if cardinal_icon \<noteq> None then fst CARDINAL_ICON_SIZE else 0);
         gap = (if cardinal_icon \<noteq> None then CARDINAL_GAP else 0);
         combined_w = icon_w + gap + label_w;
         base_y = y + height - BOTTOM_ZONE_INSET - snd CARDINAL_ICON_SIZE;
         start_x = x + (width - combined_w) div 2 in
     bind_act (case cardinal_icon of
                 Some icon \<Rightarrow>
                   bind_act (issue env (Paste_icon icon start_x base_y)) (\<lambda>_.
                   bind_act (logger Info ''Kardinalpil renderad'') (\<lambda>_.
                   ret (start_x + (fst CARDINAL_ICON_SIZE + gap))))
               | None \<Rightarrow>
                   bind_act (logger Error ''KARDINALPIL SAKNAS HELT'') (\<lambda>_.
                   bind_act (issue env (Text (start_x, base_y) [right_arrow] label_font 0)) (\<lambda>_.
                   ret (start_x + 20)))) (\<lambda>cursor_x.
     bind_act (ask (text_height env direction_short label_font)) (\<lambda>label_h.
     let label_y = base_y + (snd CARDINAL_ICON_SIZE - label_h) div 2 in
     bind_act (issue env (Text_with_fallback (cursor_x, label_y) direction_short label_font 0)) (\<lambda>_.
     bind_act (logger Info ''KOLLISIONSSAKER cykel-optimerad wind-modul'') (\<lambda>_.
     ret True))))))))))))))))))))"

subsection \<open>\<open>render\<close> and \<open>get_required_data_sources\<close>\<close>

fun render_body ::
  "version \<Rightarrow> ('v, 'f::zero, 'font, 'icon) collaborators \<Rightarrow> int \<Rightarrow> int \<Rightarrow> int \<Rightarrow> int
     \<Rightarrow> (string \<rightharpoonup> 'v) \<Rightarrow> (string \<rightharpoonup> 'v) \<Rightarrow> (bool, ('font, 'icon) draw_call) act" where
  "render_body Layout_fix_0815 = render_body_layout_fix_0815"
| "render_body Layout_fix_0817 = render_body_layout_fix_0817"
| "render_body Text_bounds_fix = render_body_text_bounds_fix"
| "render_body Clean_final = render_body_clean_final"

text \<open>The message of the handler's \<open>self.logger.error\<close>, followed by the exception's text.\<close>

fun handler_message :: "version \<Rightarrow> exn \<Rightarrow> string" where
  "handler_message Clean_final e = ''Fel vid kollisionssaker wind rendering: '' @ exn_text e"
| "handler_message v e = ''Fel vid wind rendering: '' @ exn_text e"

text \<open>
  \<open>render\<close> as a computation: the body under \<open>try\<close>, and the handler of
  \<open>except Exception as e\<close>, which logs and returns what \<open>render_fallback_content\<close> returns.
\<close>

definition render_act ::
  "version \<Rightarrow> ('v, 'f::zero, 'font, 'icon) collaborators \<Rightarrow> int \<Rightarrow> int \<Rightarrow> int \<Rightarrow> int
     \<Rightarrow> (string \<rightharpoonup> 'v) \<Rightarrow> (string \<rightharpoonup> 'v) \<Rightarrow> (bool, ('font, 'icon) draw_call) act" where
  "render_act v env x y width height weather_data context_data =
     try_except (render_body v env x y width height weather_data context_data) (\<lambda>e.
       bind_act (logger Error (handler_message v e)) (\<lambda>_.
       render_fallback_content env x y width height placeholder))"

text \<open>
  What a call of \<open>render\<close> can touch: the contents of the two mappings passed to it, the
  sequence of draw calls the canvas has received, and the log.
\<close>

record ('v, 'font, 'icon) world =
  weather_data_of :: "string \<rightharpoonup> 'v"
  context_data_of :: "string \<rightharpoonup> 'v"
  canvas :: "('font, 'icon) draw_call list"
  logged :: "log_entry list"

subsection \<open>\<open>render\<close> as a transformer of the world\<close>

text \<open>
  The same code with the state passed explicitly: a statement takes the world and
  returns its outcome and the world it leaves behind. In this form nothing is fixed
  in advance about what \<open>render\<close> reads or changes; that the computations above describe
  it is proved in a later section. The arguments \<open>weather_data\<close> and \<open>context_data\<close>
  of \<open>render\<close> are references to the two mappings in the world.
\<close>

type_synonym ('v, 'font, 'icon, 'a) prog =
  "('v, 'font, 'icon) world \<Rightarrow> (exn + 'a) \<times> ('v, 'font, 'icon) world"

definition return_st :: "'a \<Rightarrow> ('v, 'font, 'icon, 'a) prog" where
  "return_st a w = (Inr a, w)"

definition bind_st ::
  "('v, 'font, 'icon, 'a) prog \<Rightarrow> ('a \<Rightarrow> ('v, 'font, 'icon, 'b) prog) \<Rightarrow> ('v, 'font, 'icon, 'b) prog" where
  "bind_st m f w = (case m w of (Inl e, w') \<Rightarrow> (Inl e, w') | (Inr a, w') \<Rightarrow> f a w')"

definition try_except_st ::
  "('v, 'font, 'icon, 'a) prog \<Rightarrow> (exn \<Rightarrow> ('v, 'font, 'icon, 'a) prog) \<Rightarrow> ('v, 'font, 'icon, 'a) prog" where
  "try_except_st m h w =
     (case m w of
        (Inl (Exception msg), w') \<Rightarrow> h (Exception msg) w'
      | (Inl (Base_exception msg), w') \<Rightarrow> (Inl (Base_exception msg), w')
      | (Inr a, w') \<Rightarrow> (Inr a, w'))"

text \<open>A query to a collaborator that is passed none of the two mappings.\<close>

definition ask_st :: "exn + 'a \<Rightarrow> ('v, 'font, 'icon, 'a) prog" where
  "ask_st r w = (r, w)"

text \<open>
  \<open>self.safe_get_value(weather_data, key, default, conversion)\<close>: the collaborator is
  passed the mapping as it is at the time of the call.
\<close>

definition read_weather_data ::
  "('v, 'f, 'font, 'icon) collaborators \<Rightarrow> string \<Rightarrow> 'f \<Rightarrow> py_type \<Rightarrow> ('v, 'font, 'icon, 'f) prog" where
  "read_weather_data env key dflt conv w = (safe_get_value env (weather_data_of w) key dflt conv, w)"

definition issue_st ::
  "('v, 'f, 'font, 'icon) collaborators \<Rightarrow> ('font, 'icon) draw_call \<Rightarrow> ('v, 'font, 'icon, unit) prog" where
  "issue_st env c w =
     ((case draw_raises env c of None \<Rightarrow> Inr () | Some e \<Rightarrow> Inl e), w\<lparr>canvas := canvas w @ [c]\<rparr>)"

definition logger_st :: "level \<Rightarrow> string \<Rightarrow> ('v, 'font, 'icon, unit) prog" where
  "logger_st lvl msg w = (Inr (), w\<lparr>logged := logged w @ [(lvl, msg)]\<rparr>)"

text \<open>
  A collaborator that paints and logs on its own, such as \<open>render_fallback_content\<close>: its
  draw calls reach the canvas and its lines the log.
\<close>

definition perform :: "('a, ('font, 'icon) draw_call) act \<Rightarrow> ('v, 'font, 'icon, 'a) prog" where
  "perform m w = (outcome m, w\<lparr>canvas := canvas w @ calls m, logged := logged w @ logs m\<rparr>)"

definition try_body_layout_fix_0815 ::
  "('v, 'f::zero, 'font, 'icon) collaborators \<Rightarrow> int \<Rightarrow> int \<Rightarrow> int \<Rightarrow> int
     \<Rightarrow> ('v, 'font, 'icon, bool) prog" where
  "try_body_layout_fix_0815 env x y width height =
     bind_st (logger_st Info ''Renderar wind-modul'') (\<lambda>_.
     bind_st (read_weather_data env ''wind_speed'' 0 Float_type) (\<lambda>wind_speed.
     bind_st (read_weather_data env ''wind_direction'' 0 Float_type) (\<lambda>wind_direction.
     bind_st (ask_st (get_wind_description_swedish env wind_speed)) (\<lambda>speed_description.
     bind_st (ask_st (get_wind_direction_info env wind_direction)) (\<lambda>(direction_short, cardinal_code).
     bind_st (ask_st (get_system_icon env ''strong-wind'' (48, 48))) (\<lambda>general_wind_icon.
     let icon_center_x = x + (width div 2) - 24 in
     bind_st (case general_wind_icon of
                 Some icon \<Rightarrow> issue_st env (Paste_icon icon icon_center_x (y + 15))
               | None \<Rightarrow> return_st ()) (\<lambda>_.
     let ms_text = ms_text_of env wind_speed;
         ms_center_x = x + (width div 2) in
     bind_st (issue_st env (Text_with_fallback (ms_center_x - 50, y + 75) ms_text
                 (fonts_get (fonts env) ''hero_temp'' (fonts_get (fonts env) ''small_main'' None)) 0)) (\<lambda>_.
     let desc_center_x = x + (width div 2) in
     bind_st (issue_st env (Text_with_fallback (desc_center_x - 40, y + 115) speed_description
                 (fonts_get (fonts env) ''medium_desc'' (fonts_get (fonts env) ''small_desc'' None)) 0)) (\<lambda>_.
     bind_st (ask_st (get_wind_icon env cardinal_code (32, 32))) (\<lambda>cardinal_icon.
     let cardinal_center_x = x + (width div 2) - 16 in
     bind_st (case cardinal_icon of
                 Some icon \<Rightarrow> issue_st env (Paste_icon icon cardinal_center_x (y + 150))
               | None \<Rightarrow> return_st ()) (\<lambda>_.
     let direction_x = cardinal_center_x + 40 in
     bind_st (issue_st env (Text_with_fallback (direction_x, y + 155) direction_short
                 (fonts_get (fonts env) ''medium_desc'' (fonts_get (fonts env) ''small_desc'' None)) 0)) (\<lambda>_.
     bind_st (logger_st Info ''Cykel-optimerad wind-modul rendered'') (\<lambda>_.
     return_st True)))))))))))))"

definition try_body_layout_fix_0817 ::
  "('v, 'f::zero, 'font, 'icon) collaborators \<Rightarrow> int \<Rightarrow> int \<Rightarrow> int \<Rightarrow> int
     \<Rightarrow> ('v, 'font, 'icon, bool) prog" where
  "try_body_layout_fix_0817 env x y width height =
     bind_st (logger_st Info ''Renderar HORISONTELL wind-modul'') (\<lambda>_.
     bind_st (read_weather_data env ''wind_speed'' 0 Float_type) (\<lambda>wind_speed.
     bind_st (read_weather_data env ''wind_direction'' 0 Float_type) (\<lambda>wind_direction.
     bind_st (ask_st (get_wind_description_swedish env wind_speed)) (\<lambda>speed_description.
     bind_st (ask_st (get_wind_direction_info env wind_direction)) (\<lambda>(direction_short, cardinal_code).
     bind_st (ask_st (get_system_icon env ''strong-wind'' (48, 48))) (\<lambda>general_wind_icon.
     let icon_x = x + 20;
         icon_y = y + 25 in
     bind_st (case general_wind_icon of
                 Some icon \<Rightarrow> issue_st env (Paste_icon icon icon_x icon_y)
               | None \<Rightarrow> return_st ()) (\<lambda>_.
     let ms_text = ms_text_of env wind_speed;
         ms_x = icon_x + 60;
         ms_y = y + 35 in
     bind_st (issue_st env (Text_with_fallback (ms_x, ms_y) ms_text
                 (fonts_get (fonts env) ''hero_temp'' (fonts_get (fonts env) ''small_main'' None)) 0)) (\<lambda>_.
     let desc_x = ms_x;
         desc_y = ms_y + 50 in
     bind_st (issue_st env (Text_with_fallback (desc_x, desc_y) speed_description
                 (fonts_get (fonts env) ''medium_desc'' (fonts_get (fonts env) ''small_desc'' None)) 0)) (\<lambda>_.
     bind_st (ask_st (get_wind_icon env cardinal_code (32, 32))) (\<lambda>cardinal_icon.
     let cardinal_x = x + 30;
         cardinal_y = y + height - 50 in
     bind_st (case cardinal_icon of
                 Some icon \<Rightarrow> issue_st env (Paste_icon icon cardinal_x cardinal_y)
               | None \<Rightarrow> return_st ()) (\<lambda>_.
     let direction_x = cardinal_x + 40;
         direction_y = cardinal_y + 5 in
     bind_st (issue_st env (Text_with_fallback (direction_x, direction_y) direction_short
                 (fonts_get (fonts env) ''medium_desc'' (fonts_get (fonts env) ''small_desc'' None)) 0)) (\<lambda>_.
     bind_st (logger_st Info ''HORISONTELL cykel-optimerad wind-modul rendered'') (\<lambda>_.
     return_st True)))))))))))))"

definition try_body_text_bounds_fix ::
  "('v, 'f::zero, 'font, 'icon) collaborators \<Rightarrow> int \<Rightarrow> int \<Rightarrow> int \<Rightarrow> int
     \<Rightarrow> ('v, 'font, 'icon, bool) prog" where
  "try_body_text_bounds_fix env x y width height =
     bind_st (logger_st Info ''Renderar FIXAD SYMMETRISK wind-modul'') (\<lambda>_.
     bind_st (read_weather_data env ''wind_speed'' 0 Float_type) (\<lambda>wind_speed.
     bind_st (read_weather_data env ''wind_direction'' 0 Float_type) (\<lambda>wind_direction.
     bind_st (ask_st (get_wind_description_swedish env wind_speed)) (\<lambda>speed_description.
     bind_st (ask_st (get_wind_direction_info env wind_direction)) (\<lambda>(direction_short, cardinal_code).
     bind_st (issue_st env (Rectangle (x + 2, y + 2) (x + width - 2, y + height - 2) 0 2)) (\<lambda>_.
     let center_x = x + width div 2 in
     bind_st (ask_st (get_system_icon env ''strong-wind'' (40, 40))) (\<lambda>general_wind_icon.
     bind_st (case general_wind_icon of
                 Some icon \<Rightarrow> issue_st env (Paste_icon icon (center_x - 20) (y + 25))
               | None \<Rightarrow> return_st ()) (\<lambda>_.
     let ms_text = ms_text_of env wind_speed;
         ms_font = fonts_get (fonts env) ''large_main'' (fonts_get (fonts env) ''medium_main'' None) in
     bind_st (ask_st (get_text_bounds env ms_text ms_font)) (\<lambda>text_bbox.
     let ms_x = center_x - fst text_bbox div 2;
         ms_y = y + 80 in
     bind_st (issue_st env (Text_with_fallback (ms_x, ms_y) ms_text ms_font 0)) (\<lambda>_.
     let desc_font = fonts_get (fonts env) ''medium_main'' (fonts_get (fonts env) ''small_main'' None) in
     bind_st (ask_st (get_text_bounds env speed_description desc_font)) (\<lambda>desc_bbox.
     let desc_x = center_x - fst desc_bbox div 2;
         desc_y = ms_y + 40 in
     bind_st (issue_st env (Text_with_fallback (desc_x, desc_y) speed_description desc_font 0)) (\<lambda>_.
     bind_st (ask_st (get_wind_icon env cardinal_code (24, 24))) (\<lambda>cardinal_icon.
     let direction_y_base = y + height - 45;
         direction_font = fonts_get (fonts env) ''small_main'' (fonts_get (fonts env) ''small_desc'' None) in
     bind_st (ask_st (get_text_bounds env direction_short direction_font)) (\<lambda>direction_text_bbox.
     let combined_width = 24 + 8 + fst direction_text_bbox;
         combined_x = center_x - combined_width div 2 in
     bind_st (case cardinal_icon of
                 Some icon \<Rightarrow> issue_st env (Paste_icon icon combined_x direction_y_base)
               | None \<Rightarrow> return_st ()) (\<lambda>_.
     let direction_x = combined_x + 24 + 8;
         direction_y = direction_y_base + 2 in
     bind_st (issue_st env (Text_with_fallback (direction_x, direction_y) direction_short direction_font 0)) (\<lambda>_.
     bind_st (logger_st Info ''FIXAD SYMMETRISK cykel-optimerad wind-modul'') (\<lambda>_.
     return_st True)))))))))))))))))"

fun draw_desc_lines_st ::
  "('v, 'f, 'font, 'icon) collaborators \<Rightarrow> int \<Rightarrow> int \<Rightarrow> 'font option \<Rightarrow> int \<Rightarrow> pystr list
     \<Rightarrow> ('v, 'font, 'icon, unit) prog" where
  "draw_desc_lines_st env desc_x desc_y desc_font i [] = return_st ()"
| "draw_desc_lines_st env desc_x desc_y desc_font i (line # rest) =
     bind_st (ask_st (text_height env line desc_font)) (\<lambda>h.
     let line_y = desc_y + i * (h + LINE_GAP) in
     bind_st (issue_st env (Text_with_fallback (desc_x, line_y) line desc_font 0)) (\<lambda>_.
     draw_desc_lines_st env desc_x desc_y desc_font (i + 1) rest))"

fun try_alt_codes_st ::
  "('v, 'f, 'font, 'icon) collaborators \<Rightarrow> pystr list
     \<Rightarrow> ('v, 'font, 'icon, 'icon option) prog" where
  "try_alt_codes_st env [] = return_st None"
| "try_alt_codes_st env (alt_code # rest) =
     bind_st (ask_st (get_wind_icon env alt_code CARDINAL_ICON_SIZE)) (\<lambda>alt_icon.
     case alt_icon of
       Some icon \<Rightarrow> bind_st (logger_st Info ''Anvander alternativ kod'') (\<lambda>_. return_st (Some icon))
     | None \<Rightarrow> try_alt_codes_st env rest)"

definition try_body_clean_final ::
  "('v, 'f::zero, 'font, 'icon) collaborators \<Rightarrow> int \<Rightarrow> int \<Rightarrow> int \<Rightarrow> int
     \<Rightarrow> ('v, 'font, 'icon, bool) prog" where
  "try_body_clean_final env x y width height =
     bind_st (logger_st Info ''Renderar PROFESSIONELL wind-modul'') (\<lambda>_.
     bind_st (read_weather_data env ''wind_speed'' 0 Float_type) (\<lambda>wind_speed.
     bind_st (read_weather_data env ''wind_direction'' 0 Float_type) (\<lambda>wind_direction.
     bind_st (ask_st (get_wind_description_swedish env wind_speed)) (\<lambda>speed_description.
     bind_st (ask_st (get_wind_direction_info env wind_direction)) (\<lambda>(direction_short, cardinal_code).
     bind_st (issue_st env (Rectangle (x + 2, y + 2) (x + width - 2, y + height - 2) 0 2)) (\<lambda>_.
     let left_x = x + PADDING;
         right_icon_x = x + width - RIGHT_ICON_INSET - fst RIGHT_ICON_SIZE;
         ms_text = ms_text_of env wind_speed;
         ms_font = fonts_get (fonts env) ''large_main'' (fonts_get (fonts env) ''medium_main'' None) in
     bind_st (ask_st (textbbox env (0, 0) ms_text ms_font)) (\<lambda>ms_bbox.
     let ms_x = left_x;
         ms_y = y + PADDING in
     bind_st (issue_st env (Text_with_fallback (ms_x, ms_y) ms_text ms_font 0)) (\<lambda>_.
     let desc_font = fonts_get (fonts env) ''small_main'' (fonts_get (fonts env) ''small_desc'' None);
         raw_desc = speed_description in
     bind_st (ask_st (wrap2_ellips (\<lambda>t. text_width env t desc_font) raw_desc
                 MAX_DESC_WIDTH MAX_DESC_LINES)) (\<lambda>desc_lines.
     let desc_x = left_x;
         ms_height = bbox_3 ms_bbox - bbox_1 ms_bbox;
         desc_y = ms_y + ms_height + ROW_GAP_PRIMARY in
     bind_st (draw_desc_lines_st env desc_x desc_y desc_font 0 desc_lines) (\<lambda>_.
     bind_st (ask_st (get_system_icon env ''strong-wind'' RIGHT_ICON_SIZE)) (\<lambda>wind_icon.
     bind_st (case wind_icon of
                 Some icon \<Rightarrow>
                   bind_st (ask_st (text_width env ms_text ms_font)) (\<lambda>ms_width.
                   let icon_x = right_icon_x;
                       ms_right_edge = ms_x + ms_width in
                   bind_st (if ms_right_edge + 12 > x + PADDING + PRIMARY_MAX_W width
                             then bind_st (logger_st Info ''Kollisionsskydd aktiverat - ikon flyttad'')
                                    (\<lambda>_. return_st (desc_y - 4))
                             else return_st (y + PADDING div 2)) (\<lambda>icon_y.
                   bind_st (issue_st env (Paste_icon icon icon_x icon_y)) (\<lambda>_.
                   logger_st Info ''Illustration-ikon renderad kollisionssakert'')))
               | None \<Rightarrow> logger_st Warning ''Illustration-ikon saknas'') (\<lambda>_.
     bind_st (ask_st (get_wind_icon env cardinal_code CARDINAL_ICON_SIZE)) (\<lambda>first_icon.
     let label_font = fonts_get (fonts env) ''small_main'' desc_font in
     bind_st (logger_st Info ''Cardinal code'') (\<lambda>_.
     bind_st (case first_icon of
                 Some icon \<Rightarrow>
                   bind_st (logger_st Info ''Cardinal ikon laddad'') (\<lambda>_. return_st (Some icon))
               | None \<Rightarrow>
                   bind_st (logger_st Warning ''Cardinal ikon SAKNAS'') (\<lambda>_.
                   try_alt_codes_st env
                     [ascii ''n'', ascii ''N'', str_upper env cardinal_code,
                      str_lower env cardinal_code])) (\<lambda>cardinal_icon.
     bind_st (ask_st (text_width env direction_short label_font)) (\<lambda>label_w.
     let icon_w = (if cardinal_icon \<noteq> None then fst CARDINAL_ICON_SIZE else 0);
         gap = (if cardinal_icon \<noteq> None then CARDINAL_GAP else 0);
         combined_w = icon_w + gap + label_w;
         base_y = y + height - BOTTOM_ZONE_INSET - snd CARDINAL_ICON_SIZE;
         start_x = x + (width - combined_w) div 2 in
     bind_st (case cardinal_icon of
                 Some icon \<Rightarrow>
                   bind_st (issue_st env (Paste_icon icon start_x base_y)) (\<lambda>_.
                   bind_st (logger_st Info ''Kardinalpil renderad'') (\<lambda>_.
                   return_st (start_x + (fst CARDINAL_ICON_SIZE + gap))))
               | None \<Rightarrow>
                   bind_st (logger_st Error ''KARDINALPIL SAKNAS HELT'') (\<lambda>_.
                   bind_st (issue_st env (Text (start_x, base_y) [right_arrow] label_font 0)) (\<lambda>_.
                   return_st (start_x + 20)))) (\<lambda>cursor_x.
     bind_st (ask_st (text_height env direction_short label_font)) (\<lambda>label_h.
     let label_y = base_y + (snd CARDINAL_ICON_SIZE - label_h) div 2 in
     bind_st (issue_st env (Text_with_fallback (cursor_x, label_y) direction_short label_font 0)) (\<lambda>_.
     bind_st (logger_st Info ''KOLLISIONSSAKER cykel-optimerad wind-modul'') (\<lambda>_.
     return_st True))))))))))))))))))))"

fun try_body ::
  "version \<Rightarrow> ('v, 'f::zero, 'font, 'icon) collaborators \<Rightarrow> int \<Rightarrow> int \<Rightarrow> int \<Rightarrow> int
     \<Rightarrow> ('v, 'font, 'icon, bool) prog" where
  "try_body Layout_fix_0815 = try_body_layout_fix_0815"
| "try_body Layout_fix_0817 = try_body_layout_fix_0817"
| "try_body Text_bounds_fix = try_body_text_bounds_fix"
| "try_body Clean_final = try_body_clean_final"

text \<open>
  \<open>render(self, x, y, width, height, weather_data, context_data)\<close>: the body under
  \<open>try\<close>, and the handler of \<open>except Exception as e\<close>.
\<close>

definition render ::
  "version \<Rightarrow> ('v, 'f::zero, 'font, 'icon) collaborators \<Rightarrow> int \<Rightarrow> int \<Rightarrow> int \<Rightarrow> int
     \<Rightarrow> ('v, 'font, 'icon, bool) prog" where
  "render v env x y width height =
     try_except_st (try_body v env x y width height) (\<lambda>e.
       bind_st (logger_st Error (handler_message v e)) (\<lambda>_.
       perform (render_fallback_content env x y width height placeholder)))"

fun get_required_data_sources :: "version \<Rightarrow> ('v, 'font, 'icon) world \<Rightarrow> string list" where
  "get_required_data_sources Layout_fix_0815 w = [''smhi'']"
| "get_required_data_sources Layout_fix_0817 w = [''smhi'']"
| "get_required_data_sources Text_bounds_fix w = [''smhi'']"
| "get_required_data_sources Clean_final w = [''smhi'']"

section \<open>Properties of the line-wrapping routine\<close>

lemma is_space_space: "is_space space"
  by (simp add: is_space_def space_def)

text \<open>A word as \<open>split()\<close> returns it: not empty, and free of whitespace.\<close>

definition word_ok :: "pystr \<Rightarrow> bool" where
  "word_ok w \<longleftrightarrow> w \<noteq> [] \<and> (\<forall>c\<in>set w. \<not> is_space c)"

lemma split_ws_words:
  "\<forall>c\<in>set cur. \<not> is_space c \<Longrightarrow> \<forall>w\<in>set (split_ws s cur). word_ok w"
proof (induction s arbitrary: cur)
  case Nil
  then show ?case by (simp add: word_ok_def)
next
  case (Cons c cs)
  show ?case
  proof (cases "is_space c")
    case True
    have "\<forall>c\<in>set ([]::pystr). \<not> is_space c" by simp
    then have ih: "\<forall>w\<in>set (split_ws cs []). word_ok w" by (rule Cons.IH)
    from Cons.prems have "cur \<noteq> [] \<Longrightarrow> word_ok cur" by (simp add: word_ok_def)
    with ih show ?thesis using True by simp
  next
    case False
    with Cons.prems have "\<forall>x\<in>set (cur @ [c]). \<not> is_space x" by simp
    then have "\<forall>w\<in>set (split_ws cs (cur @ [c])). word_ok w" by (rule Cons.IH)
    then show ?thesis using False by simp
  qed
qed

lemma py_split_words: "w \<in> set (py_split s) \<Longrightarrow> word_ok w"
  using split_ws_words[of "[]" s] by (simp add: py_split_def)

lemma py_rstrip_id: "s \<noteq> [] \<Longrightarrow> \<not> is_space (last s) \<Longrightarrow> py_rstrip s = s"
proof -
  assume a: "s \<noteq> []" "\<not> is_space (last s)"
  then have "rev s \<noteq> []" "\<not> is_space (hd (rev s))" by (simp_all add: hd_rev)
  then have "dropWhile is_space (rev s) = rev s" by (cases "rev s") auto
  then show ?thesis by (simp add: py_rstrip_def)
qed

lemma py_strip_id:
  "s \<noteq> [] \<Longrightarrow> \<not> is_space (hd s) \<Longrightarrow> \<not> is_space (last s) \<Longrightarrow> py_strip s = s"
proof -
  assume a: "s \<noteq> []" "\<not> is_space (hd s)" "\<not> is_space (last s)"
  then have "py_lstrip s = s" by (cases s) (auto simp: py_lstrip_def)
  with a show ?thesis by (simp add: py_strip_def py_rstrip_id)
qed

lemma py_strip_first: "word_ok w \<Longrightarrow> py_strip ([] @ [space] @ w) = w"
proof -
  assume a: "word_ok w"
  then have "py_lstrip ([] @ [space] @ w) = w"
    by (cases w) (auto simp: py_lstrip_def is_space_space word_ok_def)
  moreover from a have "py_rstrip w = w"
    by (intro py_rstrip_id) (auto simp: word_ok_def)
  ultimately show ?thesis by (simp add: py_strip_def)
qed

lemma py_strip_next:
  "cur \<noteq> [] \<Longrightarrow> \<not> is_space (hd cur) \<Longrightarrow> word_ok w \<Longrightarrow>
   py_strip (cur @ [space] @ w) = cur @ [space] @ w"
  by (rule py_strip_id) (auto simp: word_ok_def)

lemma py_rstrip_nonempty: "\<exists>c\<in>set s. \<not> is_space c \<Longrightarrow> py_rstrip s \<noteq> []"
proof -
  assume "\<exists>c\<in>set s. \<not> is_space c"
  then have "\<exists>c\<in>set (rev s). \<not> is_space c" by simp
  then have "dropWhile is_space (rev s) \<noteq> []" by (simp add: dropWhile_eq_Nil_conv)
  then show ?thesis by (simp add: py_rstrip_def)
qed

lemma py_strip_nonempty: "word_ok w \<Longrightarrow> py_strip (cur @ [space] @ w) \<noteq> []"
proof -
  assume a: "word_ok w"
  let ?s = "cur @ [space] @ w"
  from a have ex: "\<exists>c\<in>set ?s. \<not> is_space c" by (cases w) (auto simp: word_ok_def)
  then have ne: "dropWhile is_space ?s \<noteq> []" by (simp add: dropWhile_eq_Nil_conv)
  then have "\<not> is_space (hd (dropWhile is_space ?s))" by (rule hd_dropWhile)
  with ne have "\<exists>c\<in>set (dropWhile is_space ?s). \<not> is_space c"
    using hd_in_set by blast
  then have "py_rstrip (dropWhile is_space ?s) \<noteq> []" by (rule py_rstrip_nonempty)
  then show ?thesis by (simp add: py_strip_def py_lstrip_def)
qed

lemma shrink_result:
  "case shrink tw max_w rest of Inr r \<Rightarrow> True | Inl e \<Rightarrow> \<exists>s. tw s = Inl e"
proof (induction tw max_w rest rule: shrink.induct)
  case (1 tw max_w rest)
  show ?case
  proof (cases "tw (rest @ [ellipsis])")
    case (Inl e)
    then have "shrink tw max_w rest = Inl e" by (subst shrink.simps) simp
    with Inl show ?thesis by auto
  next
    case (Inr wd)
    show ?thesis
    proof (cases "wd > max_w \<and> length rest > 3")
      case True
      with Inr have "shrink tw max_w rest = shrink tw max_w (py_rstrip (butlast rest))"
        by (subst shrink.simps) simp
      with "1.IH"[OF Inr True] show ?thesis by simp
    next
      case False
      with Inr have "shrink tw max_w rest = Inr rest" by (subst shrink.simps) auto
      then show ?thesis by simp
    qed
  qed
qed

lemma wrap_loop_result:
  assumes "1 \<le> max_lines" and "\<forall>w\<in>set ws. word_ok w" and "cur \<noteq> [] \<or> ws \<noteq> []"
  shows "case wrap_loop tw max_w max_lines lines cur ws of
           Inr ls \<Rightarrow> ls \<noteq> [] \<and> int (length ls) \<le> max_lines
         | Inl e \<Rightarrow> \<exists>s. tw s = Inl e"
  using assms
proof (induction ws arbitrary: lines cur)
  case Nil
  then show ?case by (auto simp: slice_to_def)
next
  case (Cons w ws)
  let ?test = "py_strip (cur @ [space] @ w)"
  let ?lines = "if cur \<noteq> [] then lines @ [cur] else lines"
  from Cons.prems have w: "word_ok w" and ws: "\<forall>w\<in>set ws. word_ok w" by simp_all
  then have test: "?test \<noteq> []" by (intro py_strip_nonempty)
  from w have wne: "w \<noteq> []" by (simp add: word_ok_def)
  show ?case
  proof (cases "tw ?test")
    case (Inl e)
    then show ?thesis by auto
  next
    case (Inr wd)
    show ?thesis
    proof (cases "wd \<le> max_w")
      case True
      from Cons.IH[OF Cons.prems(1) ws, of ?test lines] test
      show ?thesis using Inr True by simp
    next
      case False
      show ?thesis
      proof (cases "int (length ?lines) = max_lines - 1")
        case True
        from shrink_result[of tw max_w "join_space (w # ws)"]
        show ?thesis using Inr False True
          by (auto split: sum.splits)
      next
        case ne: False
        from Cons.IH[OF Cons.prems(1) ws, of w ?lines] wne
        show ?thesis using Inr False ne by simp
      qed
    qed
  qed
qed

lemma wrap2_ellips_lines:
  assumes "1 \<le> max_lines"
  shows "case wrap2_ellips tw text max_w max_lines of
      Inr ls \<Rightarrow> ls \<noteq> [] \<and> int (length ls) \<le> max_lines
    | Inl e \<Rightarrow> \<exists>s. tw s = Inl e"
proof (cases "py_split text = []")
  case True
  with assms show ?thesis by (simp add: wrap2_ellips_def)
next
  case False
  have "\<forall>w\<in>set (py_split text). word_ok w" by (simp add: py_split_words)
  from wrap_loop_result[OF assms this, of "[]" tw max_w "[]"] False
  show ?thesis by (simp add: wrap2_ellips_def)
qed

lemma join_space_Cons: "join_space (w # ws) = w @ (if ws = [] then [] else [space] @ join_space ws)"
  by (cases ws) simp_all

lemma join_space_merge:
  "join_space ((cur @ [space] @ w) # ws) = join_space (cur # w # ws)"
  by (cases ws) simp_all

lemma slice_to_single: "1 \<le> n \<Longrightarrow> slice_to n [x] = [x]"
  by (simp add: slice_to_def)

lemma wrap_loop_fits:
  assumes mono: "\<forall>s t. m s \<le> m (s @ t)"
    and ml: "1 \<le> max_lines"
    and ws: "\<forall>w\<in>set ws. word_ok w"
    and cur: "cur \<noteq> []" "\<not> is_space (hd cur)"
    and fits: "m (join_space (cur # ws)) \<le> max_w"
  shows "wrap_loop (\<lambda>s. Inr (m s)) max_w max_lines [] cur ws = Inr [join_space (cur # ws)]"
  using ws cur fits
proof (induction ws arbitrary: cur)
  case Nil
  then show ?case using ml by (simp add: slice_to_single)
next
  case (Cons w ws)
  let ?test = "cur @ [space] @ w"
  from Cons.prems have w: "word_ok w" and ws: "\<forall>w\<in>set ws. word_ok w" by simp_all
  from Cons.prems w have strip: "py_strip (cur @ [space] @ w) = ?test"
    by (intro py_strip_next)
  have "join_space (cur # w # ws) = ?test @ (if ws = [] then [] else [space] @ join_space ws)"
    by (simp add: join_space_Cons)
  with mono have "m ?test \<le> m (join_space (cur # w # ws))" by metis
  with Cons.prems have le: "m ?test \<le> max_w" by simp
  from Cons.prems have "?test \<noteq> []" "\<not> is_space (hd ?test)" by simp_all
  moreover from Cons.prems have "m (join_space (?test # ws)) \<le> max_w"
    by (simp only: join_space_merge)
  ultimately have "wrap_loop (\<lambda>s. Inr (m s)) max_w max_lines [] ?test ws
      = Inr [join_space (?test # ws)]"
    using ws by (intro Cons.IH)
  then have "wrap_loop (\<lambda>s. Inr (m s)) max_w max_lines [] ?test ws
      = Inr [join_space (cur # w # ws)]"
    by (simp only: join_space_merge)
  moreover have "wrap_loop (\<lambda>s. Inr (m s)) max_w max_lines [] cur (w # ws)
      = wrap_loop (\<lambda>s. Inr (m s)) max_w max_lines [] ?test ws"
    using le strip by simp
  ultimately show ?case by simp
qed

lemma wrap2_ellips_fits:
  assumes mono: "\<forall>s t. m s \<le> m (s @ t)"
    and ml: "1 \<le> max_lines"
    and words: "py_split text \<noteq> []"
    and fits: "m (join_space (py_split text)) \<le> max_w"
  shows "wrap2_ellips (\<lambda>s. Inr (m s)) text max_w max_lines = Inr [join_space (py_split text)]"
proof -
  from words obtain w ws where split: "py_split text = w # ws" by (cases "py_split text") auto
  then have w: "word_ok w" and ws: "\<forall>w\<in>set ws. word_ok w"
    using py_split_words[of _ "text"] by simp_all
  then have wne: "w \<noteq> []" and hd: "\<not> is_space (hd w)" by (simp_all add: word_ok_def)
  from w have strip: "py_strip ([] @ [space] @ w) = w" by (rule py_strip_first)
  have "join_space (w # ws) = w @ (if ws = [] then [] else [space] @ join_space ws)"
    by (rule join_space_Cons)
  with mono have "m w \<le> m (join_space (w # ws))" by metis
  with fits split have le: "m w \<le> max_w" by simp
  have "wrap_loop (\<lambda>s. Inr (m s)) max_w max_lines [] [] (w # ws)
      = wrap_loop (\<lambda>s. Inr (m s)) max_w max_lines [] w ws"
    using le strip by simp
  also have "\<dots> = Inr [join_space (w # ws)]"
    using mono ml ws wne hd fits split by (intro wrap_loop_fits) simp_all
  finally show ?thesis using words split by (simp add: wrap2_ellips_def)
qed

text \<open>
  C8. For every text, every measure of text widths (that is, every font), every maximum
  width and every \<open>max_lines\<close> of at least one, \<open>wrap2_ellips\<close> returns a list that is not
  empty and has at most \<open>max_lines\<close> lines. The routine fails to return in one way only:
  an exception raised by the measurement itself, which it passes on.
\<close>

theorem wrap2_ellips_line_count:
  assumes "1 \<le> max_lines"
  shows "case wrap2_ellips tw text max_w max_lines of
           Inr ls \<Rightarrow> ls \<noteq> [] \<and> int (length ls) \<le> max_lines
         | Inl e \<Rightarrow> \<exists>s. tw s = Inl e"
  using assms by (rule wrap2_ellips_lines)

theorem wrap2_ellips_line_count_witness:
  "(1::int) \<le> 2 \<and>
   (\<exists>ls. wrap2_ellips (\<lambda>s. Inr (100 * int (length s))) (ascii ''Svag vind'') 172 2 = Inr ls
      \<and> ls \<noteq> [] \<and> int (length ls) \<le> 2)"
proof -
  have one: "(1::int) \<le> 2" by simp
  have run: "wrap2_ellips (\<lambda>s. Inr (100 * int (length s))) (ascii ''Svag vind'') 172 2
      = Inr [ascii ''Svag'', ascii ''vin'' @ [ellipsis]]"
    by (simp add: wrap2_ellips_def py_split_def ascii_def is_space_def space_def
        py_strip_def py_lstrip_def py_rstrip_def shrink.simps ellipsis_def)
  from wrap2_ellips_line_count[OF one, of "\<lambda>s. Inr (100 * int (length s))" "ascii ''Svag vind''" 172]
  have "[ascii ''Svag'', ascii ''vin'' @ [ellipsis]] \<noteq> []
      \<and> int (length [ascii ''Svag'', ascii ''vin'' @ [ellipsis]]) \<le> 2"
    unfolding run by simp
  with one run show ?thesis by simp
qed

text \<open>
  C9. For every text with at least one word, and a measure of text widths that never
  shrinks when a string is extended: if the words of the text joined by single spaces
  measure at most \<open>max_w\<close>, then \<open>wrap2_ellips\<close> returns exactly one line, that joined
  text, with no ellipsis. This holds for every \<open>max_lines\<close> of at least one, so for the
  default of two that the renderer uses.
\<close>

theorem wrap2_ellips_single_line:
  assumes "\<forall>s t. m s \<le> m (s @ t)"
    and "1 \<le> max_lines"
    and "py_split text \<noteq> []"
    and "m (join_space (py_split text)) \<le> max_w"
  shows "wrap2_ellips (\<lambda>s. Inr (m s)) text max_w max_lines = Inr [join_space (py_split text)]"
  using assms by (rule wrap2_ellips_fits)

theorem wrap2_ellips_single_line_witness:
  "(\<forall>s t. 10 * int (length (s::pystr)) \<le> 10 * int (length (s @ t)))
   \<and> (1::int) \<le> 2
   \<and> py_split (ascii '' Svag  vind '') = [ascii ''Svag'', ascii ''vind'']
   \<and> 10 * int (length (ascii ''Svag vind'')) \<le> (172::int)
   \<and> wrap2_ellips (\<lambda>s. Inr (10 * int (length s))) (ascii '' Svag  vind '') 172 2
       = Inr [ascii ''Svag vind'']"
proof -
  have mono: "\<forall>s t. 10 * int (length (s::pystr)) \<le> 10 * int (length (s @ t))" by simp
  have one: "(1::int) \<le> 2" by simp
  have split: "py_split (ascii '' Svag  vind '') = [ascii ''Svag'', ascii ''vind'']"
    by (simp add: py_split_def ascii_def is_space_def)
  have joined: "join_space (py_split (ascii '' Svag  vind '')) = ascii ''Svag vind''"
    unfolding split by (simp add: ascii_def space_def)
  have words: "py_split (ascii '' Svag  vind '') \<noteq> []" by (simp add: split)
  have fits: "10 * int (length (join_space (py_split (ascii '' Svag  vind '')))) \<le> (172::int)"
    unfolding joined by (simp add: ascii_def)
  from wrap2_ellips_single_line[of "\<lambda>s. 10 * int (length s)", OF mono one words fits]
  have res: "wrap2_ellips (\<lambda>s. Inr (10 * int (length s))) (ascii '' Svag  vind '') 172 2
      = Inr [ascii ''Svag vind'']"
    by (simp only: joined)
  have len: "10 * int (length (ascii ''Svag vind'')) \<le> (172::int)"
    by (simp add: ascii_def)
  show ?thesis by (intro conjI mono one split len res)
qed

section \<open>The data sources\<close>

text \<open>
  C10. In all four versions \<open>get_required_data_sources\<close> returns the one-element list
  \<open>['smhi']\<close>, whatever the state; the four versions agree.
\<close>

theorem get_required_data_sources_constant:
  "get_required_data_sources v w = [''smhi'']
   \<and> get_required_data_sources v w = get_required_data_sources v' w'"
  by (cases v; cases v') simp_all

theorem get_required_data_sources_constant_witness:
  "get_required_data_sources Layout_fix_0815
      \<lparr>weather_data_of = Map.empty, context_data_of = (Map.empty :: string \<rightharpoonup> int),
       canvas = ([] :: (unit, unit) draw_call list), logged = []\<rparr> = [''smhi'']
   \<and> get_required_data_sources Clean_final
      \<lparr>weather_data_of = [''wind_speed'' \<mapsto> 5], context_data_of = (Map.empty :: string \<rightharpoonup> int),
       canvas = [Rectangle (2, 2) (238, 198) 0 2 :: (unit, unit) draw_call],
       logged = [(Info, ''x'')]\<rparr> = [''smhi'']"
  using get_required_data_sources_constant[of Layout_fix_0815
      "\<lparr>weather_data_of = Map.empty, context_data_of = (Map.empty :: string \<rightharpoonup> int),
       canvas = ([] :: (unit, unit) draw_call list), logged = []\<rparr>"]
    get_required_data_sources_constant[of Clean_final
      "\<lparr>weather_data_of = [''wind_speed'' \<mapsto> 5], context_data_of = (Map.empty :: string \<rightharpoonup> int),
       canvas = [Rectangle (2, 2) (238, 198) 0 2 :: (unit, unit) draw_call],
       logged = [(Info, ''x'')]\<rparr>"]
  by simp

section \<open>Reasoning about computations\<close>

lemma outcome_ret: "outcome (ret a) = Inr a"
  and calls_ret: "calls (ret a) = []"
  and logs_ret: "logs (ret a) = []"
  by (simp_all add: outcome_def calls_def logs_def ret_def)

lemma outcome_ask: "outcome (ask r) = r"
  and calls_ask: "calls (ask r) = []"
  and logs_ask: "logs (ask r) = []"
  by (simp_all add: outcome_def calls_def logs_def ask_def)

lemma outcome_issue:
  "outcome (issue env c) = (case draw_raises env c of None \<Rightarrow> Inr () | Some e \<Rightarrow> Inl e)"
  and calls_issue: "calls (issue env c) = [c]"
  and logs_issue: "logs (issue env c) = []"
  by (simp_all add: outcome_def calls_def logs_def issue_def)

lemma outcome_logger: "outcome (logger lvl msg) = Inr ()"
  and calls_logger: "calls (logger lvl msg) = []"
  and logs_logger: "logs (logger lvl msg) = [(lvl, msg)]"
  by (simp_all add: outcome_def calls_def logs_def logger_def)

lemma outcome_bind:
  "outcome (bind_act m f) = (case outcome m of Inl e \<Rightarrow> Inl e | Inr a \<Rightarrow> outcome (f a))"
  by (simp add: bind_act_def outcome_def split: sum.splits)

lemma calls_bind:
  "calls (bind_act m f) = calls m @ (case outcome m of Inl e \<Rightarrow> [] | Inr a \<Rightarrow> calls (f a))"
  by (simp add: bind_act_def calls_def split: sum.splits)

lemma logs_bind:
  "logs (bind_act m f) = logs m @ (case outcome m of Inl e \<Rightarrow> [] | Inr a \<Rightarrow> logs (f a))"
  by (simp add: bind_act_def logs_def split: sum.splits)

lemmas act_simps =
  outcome_ret calls_ret logs_ret outcome_ask calls_ask logs_ask
  outcome_issue calls_issue logs_issue outcome_logger calls_logger logs_logger
  outcome_bind calls_bind logs_bind

text \<open>A computation that, when it returns, returns \<open>True\<close>.\<close>

definition returns_true :: "(bool, 'c) act \<Rightarrow> bool" where
  "returns_true m \<longleftrightarrow> (\<forall>b. outcome m = Inr b \<longrightarrow> b)"

lemma returns_true_bind: "(\<And>a. returns_true (f a)) \<Longrightarrow> returns_true (bind_act m f)"
  by (auto simp: returns_true_def outcome_bind split: sum.splits)

lemma returns_true_ret: "returns_true (ret True)"
  by (simp add: returns_true_def outcome_ret)

lemma returns_true_let: "(\<And>a. returns_true (f a)) \<Longrightarrow> returns_true (Let t f)"
  by (simp add: Let_def)

lemma returns_true_prod: "(\<And>a b. returns_true (f a b)) \<Longrightarrow> returns_true (case_prod f p)"
  by (cases p) simp

lemmas returns_true_intros = returns_true_bind returns_true_ret returns_true_let returns_true_prod

lemma body_0815_true: "returns_true (render_body_layout_fix_0815 env x y width height wd cd)"
  unfolding render_body_layout_fix_0815_def by (intro returns_true_intros)

lemma body_0817_true: "returns_true (render_body_layout_fix_0817 env x y width height wd cd)"
  unfolding render_body_layout_fix_0817_def by (intro returns_true_intros)

lemma body_tbf_true: "returns_true (render_body_text_bounds_fix env x y width height wd cd)"
  unfolding render_body_text_bounds_fix_def by (intro returns_true_intros)

lemma body_cf_true: "returns_true (render_body_clean_final env x y width height wd cd)"
  unfolding render_body_clean_final_def by (intro returns_true_intros)

lemma render_body_true: "returns_true (render_body v env x y width height wd cd)"
  by (cases v) (simp_all add: body_0815_true body_0817_true body_tbf_true body_cf_true)

lemma outcome_triple: "outcome (r, cs, ls) = r"
  and calls_triple: "calls (r, cs, ls) = cs"
  and logs_triple: "logs (r, cs, ls) = ls"
  by (simp_all add: outcome_def calls_def logs_def)

lemma outcome_try_except:
  "outcome (try_except m h) =
     (case outcome m of
        Inl (Exception msg) \<Rightarrow> outcome (h (Exception msg))
      | Inl (Base_exception msg) \<Rightarrow> Inl (Base_exception msg)
      | Inr a \<Rightarrow> Inr a)"
  by (simp add: try_except_def outcome_def split: sum.splits exn.splits)

lemma calls_try_except:
  "calls (try_except m h) = calls m @
     (case outcome m of
        Inl (Exception msg) \<Rightarrow> calls (h (Exception msg))
      | Inl (Base_exception msg) \<Rightarrow> []
      | Inr a \<Rightarrow> [])"
  by (simp add: try_except_def calls_def split: sum.splits exn.splits)

lemma logs_try_except:
  "logs (try_except m h) = logs m @
     (case outcome m of
        Inl (Exception msg) \<Rightarrow> logs (h (Exception msg))
      | Inl (Base_exception msg) \<Rightarrow> []
      | Inr a \<Rightarrow> [])"
  by (simp add: try_except_def logs_def split: sum.splits exn.splits)

section \<open>Example collaborators\<close>

text \<open>
  A station reporting 4.8 m/s from the south-west, with fonts whose glyphs are ten
  pixels wide and twenty high; a variant whose data lookup raises; and a variant whose
  drawing backend raises on every call, in the fallback too.
\<close>

definition demo_env :: "(real, real, string, string) collaborators" where
  "demo_env =
     \<lparr>safe_get_value = (\<lambda>m key dflt conv. case m key of Some v \<Rightarrow> Inr v | None \<Rightarrow> Inr dflt),
      get_wind_description_swedish = (\<lambda>speed. Inr (ascii ''Svag vind'')),
      get_wind_direction_info = (\<lambda>direction. Inr (ascii ''SV'', ascii ''sw'')),
      get_system_icon = (\<lambda>name size. Inr (Some name)),
      get_wind_icon = (\<lambda>code size. Inr (Some ''wi-wind'')),
      fonts = [''large_main'' \<mapsto> ''L'', ''small_main'' \<mapsto> ''S''],
      textbbox = (\<lambda>origin t font. Inr (0, 0, min 172 (10 * int (length t)), 20)),
      get_text_bounds = (\<lambda>t font. Inr (min 172 (10 * int (length t)), 20)),
      draw_raises = (\<lambda>c. None),
      render_fallback_content =
        (\<lambda>x y width height msg. (Inr False, [Text_with_fallback (x + 10, y + 10) msg None 0], [])),
      format_1f = (\<lambda>v. ascii ''4.8''),
      str_upper = (\<lambda>s. s),
      str_lower = (\<lambda>s. s)\<rparr>"

definition demo_data :: "string \<rightharpoonup> real" where
  "demo_data = [''wind_speed'' \<mapsto> 4.8, ''wind_direction'' \<mapsto> 225]"

lemma demo_env_sel:
  "safe_get_value demo_env = (\<lambda>m key dflt conv. case m key of Some v \<Rightarrow> Inr v | None \<Rightarrow> Inr dflt)"
  "get_wind_description_swedish demo_env = (\<lambda>speed. Inr (ascii ''Svag vind''))"
  "get_wind_direction_info demo_env = (\<lambda>direction. Inr (ascii ''SV'', ascii ''sw''))"
  "get_system_icon demo_env = (\<lambda>name size. Inr (Some name))"
  "get_wind_icon demo_env = (\<lambda>code size. Inr (Some ''wi-wind''))"
  "fonts demo_env = [''large_main'' \<mapsto> ''L'', ''small_main'' \<mapsto> ''S'']"
  "textbbox demo_env = (\<lambda>origin t font. Inr (0, 0, min 172 (10 * int (length t)), 20))"
  "get_text_bounds demo_env = (\<lambda>t font. Inr (min 172 (10 * int (length t)), 20))"
  "draw_raises demo_env = (\<lambda>c. None)"
  "render_fallback_content demo_env =
     (\<lambda>x y width height msg. (Inr False, [Text_with_fallback (x + 10, y + 10) msg None 0], []))"
  "format_1f demo_env = (\<lambda>v. ascii ''4.8'')"
  "str_upper demo_env = (\<lambda>s. s)"
  "str_lower demo_env = (\<lambda>s. s)"
  by (simp_all add: demo_env_def)

definition used_world :: "(real, string, string) world" where
  "used_world = \<lparr>weather_data_of = demo_data, context_data_of = Map.empty,
     canvas = [Rectangle (0, 0) (800, 480) 0 1], logged = [(Info, ''earlier'')]\<rparr>"

definition demo_world :: "(real, string, string) world" where
  "demo_world = \<lparr>weather_data_of = demo_data, context_data_of = Map.empty, canvas = [], logged = []\<rparr>"

definition failing_env :: "(real, real, string, string) collaborators" where
  "failing_env = demo_env\<lparr>safe_get_value := (\<lambda>m key dflt conv. Inl (Exception ''bad value''))\<rparr>"

definition broken_env :: "(real, real, string, string) collaborators" where
  "broken_env = demo_env
     \<lparr>draw_raises := (\<lambda>c. Some (Exception ''canvas unavailable'')),
      render_fallback_content :=
        (\<lambda>x y width height msg. (Inl (Exception ''canvas unavailable''),
           [Text_with_fallback (x + 10, y + 10) msg None 0], []))\<rparr>"

definition interrupted_env :: "(real, real, string, string) collaborators" where
  "interrupted_env = demo_env
     \<lparr>safe_get_value := (\<lambda>m key dflt conv. Inl (Base_exception ''KeyboardInterrupt''))\<rparr>"

lemma interrupted_env_sel:
  "safe_get_value interrupted_env = (\<lambda>m key dflt conv. Inl (Base_exception ''KeyboardInterrupt''))"
  by (simp add: interrupted_env_def)

lemma failing_env_sel:
  "safe_get_value failing_env = (\<lambda>m key dflt conv. Inl (Exception ''bad value''))"
  "render_fallback_content failing_env =
     (\<lambda>x y width height msg. (Inr False, [Text_with_fallback (x + 10, y + 10) msg None 0], []))"
  by (simp_all add: failing_env_def demo_env_sel)

lemma broken_env_sel:
  "safe_get_value broken_env = (\<lambda>m key dflt conv. case m key of Some v \<Rightarrow> Inr v | None \<Rightarrow> Inr dflt)"
  "get_wind_description_swedish broken_env = (\<lambda>speed. Inr (ascii ''Svag vind''))"
  "get_wind_direction_info broken_env = (\<lambda>direction. Inr (ascii ''SV'', ascii ''sw''))"
  "draw_raises broken_env = (\<lambda>c. Some (Exception ''canvas unavailable''))"
  "render_fallback_content broken_env =
     (\<lambda>x y width height msg. (Inl (Exception ''canvas unavailable''),
        [Text_with_fallback (x + 10, y + 10) msg None 0], []))"
  by (simp_all add: broken_env_def demo_env_sel)

section \<open>The two forms of \<open>render\<close> agree\<close>

text \<open>
  A computation describes a statement, for a given content of \<open>weather_data\<close>, when
  from every world holding that content the statement returns the computation's
  outcome, appends its draw calls to the canvas and its lines to the log, and changes
  nothing else.
\<close>

definition describes ::
  "(string \<rightharpoonup> 'v) \<Rightarrow> ('a, ('font, 'icon) draw_call) act \<Rightarrow> ('v, 'font, 'icon, 'a) prog \<Rightarrow> bool" where
  "describes wd m p \<longleftrightarrow> (\<forall>w. weather_data_of w = wd \<longrightarrow> p w = perform m w)"

lemma describes_return: "describes wd (ret a) (return_st a)"
  by (simp add: describes_def perform_def return_st_def outcome_ret calls_ret logs_ret)

lemma describes_ask: "describes wd (ask r) (ask_st r)"
  by (simp add: describes_def perform_def ask_st_def outcome_ask calls_ask logs_ask)

lemma describes_read:
  "describes wd (ask (safe_get_value env wd key dflt conv)) (read_weather_data env key dflt conv)"
  by (simp add: describes_def perform_def read_weather_data_def outcome_ask calls_ask logs_ask)

lemma describes_issue: "describes wd (issue env c) (issue_st env c)"
  by (simp add: describes_def perform_def issue_st_def outcome_issue calls_issue logs_issue)

lemma describes_logger: "describes wd (logger lvl msg) (logger_st lvl msg)"
  by (simp add: describes_def perform_def logger_st_def outcome_logger calls_logger logs_logger)

lemma describes_perform: "describes wd m (perform m)"
  by (simp add: describes_def)

lemma describes_bind:
  assumes "describes wd m p" and "\<And>a. describes wd (f a) (g a)"
  shows "describes wd (bind_act m f) (bind_st p g)"
  unfolding describes_def
proof (intro allI impI)
  fix w :: "('a, 'c, 'd) world"
  assume wd: "weather_data_of w = wd"
  with assms(1) have p: "p w = perform m w" by (simp add: describes_def)
  show "bind_st p g w = perform (bind_act m f) w"
  proof (cases "outcome m")
    case (Inl e)
    then show ?thesis
      by (simp add: bind_st_def p perform_def outcome_bind calls_bind logs_bind)
  next
    case (Inr a)
    have "weather_data_of (snd (perform m w)) = wd"
      using wd by (simp add: perform_def)
    with assms(2)[of a] have "g a (snd (perform m w)) = perform (f a) (snd (perform m w))"
      by (simp add: describes_def)
    with Inr show ?thesis
      by (simp add: bind_st_def p perform_def outcome_bind calls_bind logs_bind)
  qed
qed

lemma describes_try_except:
  assumes "describes wd m p" and "\<And>e. describes wd (h e) (k e)"
  shows "describes wd (try_except m h) (try_except_st p k)"
  unfolding describes_def
proof (intro allI impI)
  fix w :: "('a, 'c, 'd) world"
  assume wd: "weather_data_of w = wd"
  with assms(1) have p: "p w = perform m w" by (simp add: describes_def)
  have kept: "weather_data_of (snd (perform m w)) = wd"
    using wd by (simp add: perform_def)
  show "try_except_st p k w = perform (try_except m h) w"
  proof (cases "outcome m")
    case (Inr a)
    then show ?thesis
      by (simp add: try_except_st_def p perform_def outcome_try_except calls_try_except
          logs_try_except)
  next
    case (Inl e)
    show ?thesis
    proof (cases e)
      case (Base_exception msg)
      with Inl show ?thesis
        by (simp add: try_except_st_def p perform_def outcome_try_except calls_try_except
            logs_try_except)
    next
      case (Exception msg)
      from kept assms(2)[of "Exception msg"]
      have "k (Exception msg) (snd (perform m w)) = perform (h (Exception msg)) (snd (perform m w))"
        by (simp add: describes_def)
      with Inl Exception show ?thesis
        by (simp add: try_except_st_def p perform_def outcome_try_except calls_try_except
            logs_try_except)
    qed
  qed
qed

lemma describes_option:
  "describes wd n q \<Longrightarrow> (\<And>a. describes wd (f a) (g a))
     \<Longrightarrow> describes wd (case v of None \<Rightarrow> n | Some a \<Rightarrow> f a) (case v of None \<Rightarrow> q | Some a \<Rightarrow> g a)"
  by (cases v) simp_all

lemma describes_prod:
  "(\<And>a b. describes wd (f a b) (g a b)) \<Longrightarrow> describes wd (case_prod f v) (case_prod g v)"
  by (cases v) simp

lemma describes_if:
  "describes wd m p \<Longrightarrow> describes wd n q
     \<Longrightarrow> describes wd (if c then m else n) (if c then p else q)"
  by simp

lemma describes_draw_desc_lines:
  "describes wd (draw_desc_lines env dx dy font i lines) (draw_desc_lines_st env dx dy font i lines)"
proof (induction lines arbitrary: i)
  case Nil
  show ?case by (simp add: describes_return)
next
  case (Cons line rest)
  show ?case
    unfolding draw_desc_lines.simps draw_desc_lines_st.simps Let_def
    by (intro describes_bind describes_ask describes_issue Cons.IH)
qed

lemma describes_try_alt_codes:
  "describes wd (try_alt_codes env codes) (try_alt_codes_st env codes)"
proof (induction codes)
  case Nil
  show ?case by (simp add: describes_return)
next
  case (Cons code rest)
  show ?case
    unfolding try_alt_codes.simps try_alt_codes_st.simps
    by (intro describes_bind describes_ask describes_option describes_logger describes_return
        Cons.IH)
qed

lemmas describes_intros =
  describes_bind describes_return describes_read describes_ask describes_issue describes_logger
  describes_option describes_prod describes_if describes_draw_desc_lines describes_try_alt_codes

lemma describes_0815:
  "describes wd (render_body_layout_fix_0815 env x y width height wd cd)
     (try_body_layout_fix_0815 env x y width height)"
  unfolding render_body_layout_fix_0815_def try_body_layout_fix_0815_def Let_def
  by (intro describes_intros)

lemma describes_0817:
  "describes wd (render_body_layout_fix_0817 env x y width height wd cd)
     (try_body_layout_fix_0817 env x y width height)"
  unfolding render_body_layout_fix_0817_def try_body_layout_fix_0817_def Let_def
  by (intro describes_intros)

lemma describes_tbf:
  "describes wd (render_body_text_bounds_fix env x y width height wd cd)
     (try_body_text_bounds_fix env x y width height)"
  unfolding render_body_text_bounds_fix_def try_body_text_bounds_fix_def Let_def
  by (intro describes_intros)

lemma describes_cf:
  "describes wd (render_body_clean_final env x y width height wd cd)
     (try_body_clean_final env x y width height)"
  unfolding render_body_clean_final_def try_body_clean_final_def Let_def
  by (intro describes_intros)

lemma describes_try_body:
  "describes wd (render_body v env x y width height wd cd) (try_body v env x y width height)"
  by (cases v) (simp_all add: describes_0815 describes_0817 describes_tbf describes_cf)

text \<open>
  The body of every version, run from any world, does what its computation says: it
  reads of the world only the content of \<open>weather_data\<close>, and its only effects are the
  draw calls and the log lines.
\<close>

lemma try_body_perform:
  "try_body v env x y width height w
     = perform (render_body v env x y width height (weather_data_of w) (context_data_of w)) w"
  using describes_try_body[of "weather_data_of w" v env x y width height "context_data_of w"]
  by (simp add: describes_def)

lemma render_perform:
  "render v env x y width height w
     = perform (render_act v env x y width height (weather_data_of w) (context_data_of w)) w"
proof -
  have "describes (weather_data_of w)
      (render_act v env x y width height (weather_data_of w) (context_data_of w))
      (render v env x y width height)"
    unfolding render_act_def render_def
    by (intro describes_try_except describes_try_body describes_bind describes_logger
        describes_perform)
  then show ?thesis by (simp add: describes_def)
qed

lemma fst_perform: "fst (perform m w) = outcome m"
  and canvas_perform: "canvas (snd (perform m w)) = canvas w @ calls m"
  and logged_perform: "logged (snd (perform m w)) = logged w @ logs m"
  and weather_data_perform: "weather_data_of (snd (perform m w)) = weather_data_of w"
  and context_data_perform: "context_data_of (snd (perform m w)) = context_data_of w"
  by (simp_all add: perform_def)

lemma fst_render:
  "fst (render v env x y width height w)
     = outcome (render_act v env x y width height (weather_data_of w) (context_data_of w))"
  by (simp add: render_perform fst_perform)

lemma outcome_render_act:
  "outcome (render_act v env x y width height wd cd) =
     (case outcome (render_body v env x y width height wd cd) of
        Inr b \<Rightarrow> Inr True
      | Inl (Exception msg) \<Rightarrow> outcome (render_fallback_content env x y width height placeholder)
      | Inl (Base_exception msg) \<Rightarrow> Inl (Base_exception msg))"
proof (cases "outcome (render_body v env x y width height wd cd)")
  case (Inl e)
  then show ?thesis
    by (cases e) (simp_all add: render_act_def outcome_try_except outcome_bind outcome_logger)
next
  case (Inr b)
  with render_body_true[of v env x y width height wd cd] have "b" by (simp add: returns_true_def)
  with Inr show ?thesis by (simp add: render_act_def outcome_try_except)
qed

section \<open>Exception handling of \<open>render\<close>\<close>

lemma try_body_returns_true:
  assumes "try_body v env x y width height w = (Inr b, w')"
  shows "b"
proof -
  from assms have "outcome (render_body v env x y width height (weather_data_of w)
      (context_data_of w)) = Inr b"
    by (simp add: try_body_perform perform_def)
  with render_body_true[of v env x y width height "weather_data_of w" "context_data_of w"]
  show ?thesis by (simp add: returns_true_def)
qed

text \<open>
  C1, as the code has it. In every version and from every world, with \<open>w'\<close> the world
  the body of \<open>render\<close> leaves behind: when the body raises nothing, \<open>render\<close> returns
  \<open>True\<close> and leaves \<open>w'\<close>. When the body raises an instance of \<open>Exception\<close>, \<open>render\<close>
  writes the error line for that exception to the log, then calls
  \<open>render_fallback_content\<close> with the same region and the placeholder text: the draw
  calls and log lines of that call follow, and \<open>render\<close> returns what the call returns
  or raises what it raises, since the handler is not guarded. When the body raises
  anything that is not an instance of \<open>Exception\<close>, \<open>render\<close> raises it in turn, with
  neither log line nor fallback.
\<close>

theorem render_exception_handling:
  "case try_body v env x y width height w of
     (Inr b, w') \<Rightarrow> render v env x y width height w = (Inr True, w')
   | (Inl (Exception msg), w') \<Rightarrow>
       fst (render v env x y width height w)
         = outcome (render_fallback_content env x y width height placeholder)
       \<and> logged (snd (render v env x y width height w))
         = logged w' @ (Error, handler_message v (Exception msg))
             # logs (render_fallback_content env x y width height placeholder)
       \<and> canvas (snd (render v env x y width height w))
         = canvas w' @ calls (render_fallback_content env x y width height placeholder)
   | (Inl (Base_exception msg), w') \<Rightarrow>
       render v env x y width height w = (Inl (Base_exception msg), w')"
proof (cases "try_body v env x y width height w")
  case (Pair r w')
  show ?thesis
  proof (cases r)
    case (Inr b)
    with Pair have "b" by (auto dest: try_body_returns_true)
    with Pair Inr show ?thesis by (simp add: render_def try_except_st_def)
  next
    case (Inl e)
    with Pair show ?thesis
      by (cases e) (simp_all add: render_def try_except_st_def bind_st_def logger_st_def perform_def)
  qed
qed

lemma try_body_failing_env:
  "try_body Clean_final failing_env 0 0 240 200 demo_world
     = (Inl (Exception ''bad value''),
        demo_world\<lparr>logged := [(Info, ''Renderar PROFESSIONELL wind-modul'')]\<rparr>)"
  by (simp add: try_body_clean_final_def bind_st_def logger_st_def read_weather_data_def
      failing_env_sel demo_world_def)

lemma try_body_interrupted_env:
  "try_body Clean_final interrupted_env 0 0 240 200 demo_world
     = (Inl (Base_exception ''KeyboardInterrupt''),
        demo_world\<lparr>logged := [(Info, ''Renderar PROFESSIONELL wind-modul'')]\<rparr>)"
  by (simp add: try_body_clean_final_def bind_st_def logger_st_def read_weather_data_def
      interrupted_env_sel demo_world_def)

lemma body_returns_demo_env:
  "outcome (render_body Layout_fix_0815 demo_env 0 0 240 200 demo_data Map.empty) = Inr True"
  by (simp add: render_body_layout_fix_0815_def Let_def act_simps demo_env_sel demo_data_def
      ms_text_of_def fonts_get_def)

lemma try_body_demo_env:
  "fst (try_body Layout_fix_0815 demo_env 0 0 240 200 demo_world) = Inr True"
  using body_returns_demo_env
  by (simp add: try_body_perform fst_perform demo_world_def del: try_body.simps render_body.simps)

theorem render_exception_handling_witness:
  "fst (render Clean_final failing_env 0 0 240 200 demo_world) = Inr False
   \<and> logged (snd (render Clean_final failing_env 0 0 240 200 demo_world))
       = [(Info, ''Renderar PROFESSIONELL wind-modul''),
          (Error, ''Fel vid kollisionssaker wind rendering: bad value'')]
   \<and> canvas (snd (render Clean_final failing_env 0 0 240 200 demo_world))
       = [Text_with_fallback (10, 10) placeholder None 0]
   \<and> fst (render Layout_fix_0815 demo_env 0 0 240 200 demo_world) = Inr True
   \<and> render Clean_final interrupted_env 0 0 240 200 demo_world
       = (Inl (Base_exception ''KeyboardInterrupt''),
          demo_world\<lparr>logged := [(Info, ''Renderar PROFESSIONELL wind-modul'')]\<rparr>)"
proof -
  from render_exception_handling[of Clean_final failing_env 0 0 240 200 demo_world]
  have caught: "fst (render Clean_final failing_env 0 0 240 200 demo_world) = Inr False
    \<and> logged (snd (render Clean_final failing_env 0 0 240 200 demo_world))
       = [(Info, ''Renderar PROFESSIONELL wind-modul''),
          (Error, ''Fel vid kollisionssaker wind rendering: bad value'')]
    \<and> canvas (snd (render Clean_final failing_env 0 0 240 200 demo_world))
       = [Text_with_fallback (10, 10) placeholder None 0]"
    unfolding try_body_failing_env
    by (simp add: failing_env_sel outcome_triple calls_triple logs_triple demo_world_def)
  obtain r w' where body: "try_body Layout_fix_0815 demo_env 0 0 240 200 demo_world = (r, w')"
    by (cases "try_body Layout_fix_0815 demo_env 0 0 240 200 demo_world")
  with try_body_demo_env have r: "r = Inr True" by simp
  from render_exception_handling[of Layout_fix_0815 demo_env 0 0 240 200 demo_world]
  have normal: "fst (render Layout_fix_0815 demo_env 0 0 240 200 demo_world) = Inr True"
    unfolding body r by simp
  from render_exception_handling[of Clean_final interrupted_env 0 0 240 200 demo_world]
  have passed: "render Clean_final interrupted_env 0 0 240 200 demo_world
       = (Inl (Base_exception ''KeyboardInterrupt''),
          demo_world\<lparr>logged := [(Info, ''Renderar PROFESSIONELL wind-modul'')]\<rparr>)"
    unfolding try_body_interrupted_env by simp
  from caught normal passed show ?thesis by simp
qed

text \<open>
  C1 as stated fails twice. With a drawing backend that raises on every call, the body
  raises at the frame rectangle, the fallback raises as well, and \<open>render\<close> passes that
  exception to its caller. And when a lookup is interrupted from the keyboard, the
  exception is not an instance of \<open>Exception\<close>: \<open>render\<close> does not catch it.
\<close>

theorem render_propagates_counterexample:
  "fst (render Clean_final broken_env 0 0 240 200 demo_world)
     = Inl (Exception ''canvas unavailable'')
   \<and> fst (render Clean_final interrupted_env 0 0 240 200 demo_world)
     = Inl (Base_exception ''KeyboardInterrupt'')"
proof -
  have "outcome (render_body Clean_final broken_env 0 0 240 200 demo_data Map.empty)
      = Inl (Exception ''canvas unavailable'')"
    by (simp add: render_body_clean_final_def act_simps broken_env_sel demo_data_def)
  then have broken: "fst (render Clean_final broken_env 0 0 240 200 demo_world)
      = Inl (Exception ''canvas unavailable'')"
    by (simp add: fst_render outcome_render_act demo_world_def broken_env_sel outcome_triple)
  have "outcome (render_body Clean_final interrupted_env 0 0 240 200 demo_data Map.empty)
      = Inl (Base_exception ''KeyboardInterrupt'')"
    by (simp add: render_body_clean_final_def act_simps interrupted_env_sel)
  then have interrupted: "fst (render Clean_final interrupted_env 0 0 240 200 demo_world)
      = Inl (Base_exception ''KeyboardInterrupt'')"
    by (simp add: fst_render outcome_render_act demo_world_def)
  from broken interrupted show ?thesis by simp
qed

section \<open>Effects of \<open>render\<close>\<close>

text \<open>
  C7. In every version and from every world, whether \<open>render\<close> returns from its body
  or through the fallback or raises: the two mappings are as they were, and the canvas
  and the log are what they were, followed by the draw calls and the log lines of this
  call. Nothing else is part of the world, so \<open>render\<close> keeps no state of its own.
\<close>

theorem render_frame:
  "weather_data_of (snd (render v env x y width height w)) = weather_data_of w
   \<and> context_data_of (snd (render v env x y width height w)) = context_data_of w
   \<and> canvas (snd (render v env x y width height w))
       = canvas w @ calls (render_act v env x y width height (weather_data_of w) (context_data_of w))
   \<and> logged (snd (render v env x y width height w))
       = logged w @ logs (render_act v env x y width height (weather_data_of w) (context_data_of w))"
  by (simp add: render_perform canvas_perform logged_perform weather_data_perform
      context_data_perform)

theorem render_frame_witness:
  "weather_data_of (snd (render Layout_fix_0815 demo_env 0 0 240 200 demo_world)) = demo_data
   \<and> context_data_of (snd (render Layout_fix_0815 demo_env 0 0 240 200 demo_world)) = Map.empty
   \<and> weather_data_of (snd (render Clean_final failing_env 0 0 240 200 demo_world)) = demo_data"
  using render_frame[of Layout_fix_0815 demo_env 0 0 240 200 demo_world]
    render_frame[of Clean_final failing_env 0 0 240 200 demo_world]
  by (simp add: demo_world_def)

text \<open>
  C6. In every version, two runs of \<open>render\<close> with the same arguments and the same
  collaborators, from worlds in which the two mappings have the same content, return
  the same value or raise the same exception and issue the same sequence of draw
  calls, whatever the canvas and the log held before.
\<close>

theorem render_deterministic:
  assumes "weather_data_of w1 = weather_data_of w2"
    and "context_data_of w1 = context_data_of w2"
  shows "fst (render v env x y width height w1) = fst (render v env x y width height w2)
    \<and> drop (length (canvas w1)) (canvas (snd (render v env x y width height w1)))
        = drop (length (canvas w2)) (canvas (snd (render v env x y width height w2)))"
  using assms by (simp add: render_perform fst_perform canvas_perform)

theorem render_deterministic_witness:
  "weather_data_of demo_world = weather_data_of used_world
   \<and> context_data_of demo_world = context_data_of used_world
   \<and> canvas demo_world \<noteq> canvas used_world
   \<and> fst (render Clean_final demo_env 0 0 240 200 demo_world)
       = fst (render Clean_final demo_env 0 0 240 200 used_world)
   \<and> drop (length (canvas demo_world))
         (canvas (snd (render Clean_final demo_env 0 0 240 200 demo_world)))
       = drop (length (canvas used_world))
           (canvas (snd (render Clean_final demo_env 0 0 240 200 used_world)))"
proof -
  have same: "weather_data_of demo_world = weather_data_of used_world"
    "context_data_of demo_world = context_data_of used_world"
    by (simp_all add: demo_world_def used_world_def)
  have differ: "canvas demo_world \<noteq> canvas used_world"
    by (simp add: demo_world_def used_world_def)
  from render_deterministic[OF same, of Clean_final demo_env 0 0 240 200] same differ
  show ?thesis by blast
qed

section \<open>Placement of text and icons\<close>

text \<open>
  The point a draw call places something at: the anchor of a text, the top-left corner
  of a pasted icon. The region of the module is the closed rectangle from (x, y) to
  (x + width, y + height).
\<close>

fun placement :: "('font, 'icon) draw_call \<Rightarrow> (int \<times> int) option" where
  "placement (Rectangle p q outline wd) = None"
| "placement (Text p t font fill) = Some p"
| "placement (Text_with_fallback p t font fill) = Some p"
| "placement (Paste_icon icon px py) = Some (px, py)"

definition within_region :: "int \<Rightarrow> int \<Rightarrow> int \<Rightarrow> int \<Rightarrow> ('font, 'icon) draw_call \<Rightarrow> bool" where
  "within_region x y width height c =
     (case placement c of
        None \<Rightarrow> True
      | Some (px, py) \<Rightarrow> x \<le> px \<and> px \<le> x + width \<and> y \<le> py \<and> py \<le> y + height)"

definition widths_bounded :: "('v, 'f, 'font, 'icon) collaborators \<Rightarrow> bool" where
  "widths_bounded env \<longleftrightarrow>
     (\<forall>t font bx0 by0 bx1 by1. textbbox env (0, 0) t font = Inr (bx0, by0, bx1, by1)
        \<longrightarrow> 0 \<le> bx1 - bx0 \<and> bx1 - bx0 \<le> MAX_DESC_WIDTH)
     \<and> (\<forall>t font bw bh. get_text_bounds env t font = Inr (bw, bh)
        \<longrightarrow> 0 \<le> bw \<and> bw \<le> MAX_DESC_WIDTH)"

definition heights_bounded :: "('v, 'f, 'font, 'icon) collaborators \<Rightarrow> bool" where
  "heights_bounded env \<longleftrightarrow>
     (\<forall>t font bx0 by0 bx1 by1. textbbox env (0, 0) t font = Inr (bx0, by0, bx1, by1)
        \<longrightarrow> 0 \<le> by1 - by0 \<and> by1 - by0 \<le> 144)"

text \<open>A property of every draw call a computation issues, also when it raises later.\<close>

definition all_calls :: "('c \<Rightarrow> bool) \<Rightarrow> ('a, 'c) act \<Rightarrow> bool" where
  "all_calls P m \<longleftrightarrow> (\<forall>c\<in>set (calls m). P c)"

lemma all_calls_bind:
  "all_calls P m \<Longrightarrow> (\<And>a. outcome m = Inr a \<Longrightarrow> all_calls P (f a)) \<Longrightarrow> all_calls P (bind_act m f)"
  by (cases "outcome m") (auto simp: all_calls_def calls_bind)

lemma all_calls_ret: "all_calls P (ret a)"
  and all_calls_ask: "all_calls P (ask r)"
  and all_calls_logger: "all_calls P (logger lvl msg)"
  by (simp_all add: all_calls_def act_simps)

lemma all_calls_issue: "P c \<Longrightarrow> all_calls P (issue env c)"
  by (simp add: all_calls_def act_simps)

lemma all_calls_option:
  "(\<And>a. v = Some a \<Longrightarrow> all_calls P (f a)) \<Longrightarrow> (v = None \<Longrightarrow> all_calls P g)
     \<Longrightarrow> all_calls P (case v of None \<Rightarrow> g | Some a \<Rightarrow> f a)"
  by (cases v) simp_all

lemma all_calls_prod:
  "(\<And>a b. p = (a, b) \<Longrightarrow> all_calls P (f a b)) \<Longrightarrow> all_calls P (case_prod f p)"
  by (cases p) simp

lemma all_calls_if:
  "(c \<Longrightarrow> all_calls P m) \<Longrightarrow> (\<not> c \<Longrightarrow> all_calls P n) \<Longrightarrow> all_calls P (if c then m else n)"
  by simp

lemmas all_calls_intros =
  all_calls_bind all_calls_ret all_calls_ask all_calls_logger all_calls_issue
  all_calls_option all_calls_prod all_calls_if

lemma within_0815:
  "all_calls (within_region x y 240 200) (render_body_layout_fix_0815 env x y 240 200 wd cd)"
  unfolding render_body_layout_fix_0815_def Let_def
  by (intro all_calls_intros) (simp_all add: within_region_def)

lemma within_0817:
  "all_calls (within_region x y 240 200) (render_body_layout_fix_0817 env x y 240 200 wd cd)"
  unfolding render_body_layout_fix_0817_def Let_def
  by (intro all_calls_intros) (simp_all add: within_region_def)

lemma get_text_bounds_width:
  assumes "widths_bounded env" and "outcome (ask (get_text_bounds env t font)) = Inr b"
  shows "0 \<le> fst b \<and> fst b \<le> 172"
proof -
  from assms(2) have "get_text_bounds env t font = Inr (fst b, snd b)"
    by (simp add: outcome_ask)
  with assms(1) show ?thesis
    unfolding widths_bounded_def MAX_DESC_WIDTH_def by blast
qed

lemma within_tbf:
  assumes "widths_bounded env"
  shows "all_calls (within_region x y 240 200) (render_body_text_bounds_fix env x y 240 200 wd cd)"
  unfolding render_body_text_bounds_fix_def Let_def
  by (intro all_calls_intros)
    (auto simp: within_region_def dest!: get_text_bounds_width[OF assms])

lemma text_width_bounds:
  assumes "widths_bounded env" and "outcome (ask (text_width env t font)) = Inr w"
  shows "0 \<le> w \<and> w \<le> 172"
proof -
  from assms(2) obtain bbox
    where "textbbox env (0, 0) t font = Inr bbox" and w: "w = bbox_2 bbox - bbox_0 bbox"
    by (auto simp: outcome_ask text_width_def split: sum.splits)
  then have "textbbox env (0, 0) t font = Inr (bbox_0 bbox, bbox_1 bbox, bbox_2 bbox, bbox_3 bbox)"
    by (simp add: bbox_0_def bbox_1_def bbox_2_def bbox_3_def)
  with assms(1) show ?thesis
    unfolding widths_bounded_def MAX_DESC_WIDTH_def w by blast
qed

lemma text_height_bounds:
  assumes "heights_bounded env" and "outcome (ask (text_height env t font)) = Inr h"
  shows "0 \<le> h \<and> h \<le> 144"
proof -
  from assms(2) obtain bbox
    where "textbbox env (0, 0) t font = Inr bbox" and h: "h = bbox_3 bbox - bbox_1 bbox"
    by (auto simp: outcome_ask text_height_def split: sum.splits)
  then have "textbbox env (0, 0) t font = Inr (bbox_0 bbox, bbox_1 bbox, bbox_2 bbox, bbox_3 bbox)"
    by (simp add: bbox_0_def bbox_1_def bbox_2_def bbox_3_def)
  with assms(1) show ?thesis
    unfolding heights_bounded_def h by blast
qed

lemma textbbox_height_bounds:
  assumes "heights_bounded env"
    and "outcome (ask (textbbox env (0, 0) t font)) = Inr bbox"
  shows "0 \<le> bbox_3 bbox - bbox_1 bbox \<and> bbox_3 bbox - bbox_1 bbox \<le> 144"
proof -
  from assms(2)
  have "textbbox env (0, 0) t font = Inr (bbox_0 bbox, bbox_1 bbox, bbox_2 bbox, bbox_3 bbox)"
    by (simp add: outcome_ask bbox_0_def bbox_1_def bbox_2_def bbox_3_def)
  with assms(1) show ?thesis
    unfolding heights_bounded_def by blast
qed

text \<open>
  When no measured width exceeds the maximum, every test of the wrapping routine
  succeeds: it never starts a second line.
\<close>

lemma length_slice_to: "length (slice_to n xs) \<le> length xs"
  by (simp add: slice_to_def)

lemma wrap_loop_all_fit:
  assumes fit: "\<And>s wd. tw s = Inr wd \<Longrightarrow> wd \<le> max_w"
    and run: "wrap_loop tw max_w max_lines lines cur ws = Inr ls"
  shows "length ls \<le> Suc (length lines)"
  using run
proof (induction ws arbitrary: cur)
  case Nil
  then have "ls = slice_to max_lines (if cur \<noteq> [] then lines @ [cur] else lines)" by simp
  then show ?case using length_slice_to[of max_lines "if cur \<noteq> [] then lines @ [cur] else lines"]
    by (simp split: if_splits)
next
  case (Cons w ws)
  show ?case
  proof (cases "tw (py_strip (cur @ [space] @ w))")
    case (Inl e)
    with Cons.prems show ?thesis by simp
  next
    case (Inr wd)
    with fit have "wd \<le> max_w" by simp
    with Inr Cons.prems
    have "wrap_loop tw max_w max_lines lines (py_strip (cur @ [space] @ w)) ws = Inr ls"
      by simp
    then show ?thesis by (rule Cons.IH)
  qed
qed

lemma wrap2_ellips_all_fit:
  assumes fit: "\<And>s wd. tw s = Inr wd \<Longrightarrow> wd \<le> max_w"
    and run: "wrap2_ellips tw t max_w max_lines = Inr ls"
  shows "length ls \<le> 1"
proof (cases "py_split t = []")
  case True
  with run show ?thesis by (auto simp: wrap2_ellips_def)
next
  case False
  with run have "wrap_loop tw max_w max_lines [] [] (py_split t) = Inr ls"
    by (simp add: wrap2_ellips_def)
  from wrap_loop_all_fit[OF fit this] show ?thesis by simp
qed

lemma wrapped_single:
  assumes wb: "widths_bounded env"
    and "outcome (ask (wrap2_ellips (\<lambda>t. text_width env t font) t MAX_DESC_WIDTH max_lines)) = Inr ls"
  shows "length ls \<le> 1"
proof -
  have fit: "\<And>s wd. text_width env s font = Inr wd \<Longrightarrow> wd \<le> MAX_DESC_WIDTH"
    using text_width_bounds[OF wb] by (simp add: outcome_ask MAX_DESC_WIDTH_def)
  from assms(2)
  have "wrap2_ellips (\<lambda>t. text_width env t font) t MAX_DESC_WIDTH max_lines = Inr ls"
    by (simp add: outcome_ask)
  from wrap2_ellips_all_fit[of "\<lambda>t. text_width env t font", OF fit this] show ?thesis .
qed

lemma calls_try_alt_codes: "calls (try_alt_codes env codes) = []"
  by (induction codes) (auto simp: act_simps split: sum.splits option.splits)

lemma all_calls_try_alt_codes: "all_calls P (try_alt_codes env codes)"
  by (simp add: all_calls_def calls_try_alt_codes)

lemma all_calls_draw_desc_lines:
  assumes "length lines \<le> 1"
    and dx: "x \<le> dx" "dx \<le> x + 240" and dy: "y \<le> dy" "dy \<le> y + 200"
  shows "all_calls (within_region x y 240 200) (draw_desc_lines env dx dy font 0 lines)"
proof (cases lines)
  case Nil
  then show ?thesis by (simp add: all_calls_ret)
next
  case (Cons line rest)
  with assms(1) have rest: "rest = []" by simp
  show ?thesis
    unfolding Cons rest draw_desc_lines.simps Let_def
    using dx dy by (intro all_calls_intros) (simp_all add: within_region_def)
qed

lemmas clean_final_consts =
  PADDING_def ROW_GAP_PRIMARY_def RIGHT_ICON_SIZE_def RIGHT_ICON_INSET_def
  CARDINAL_ICON_SIZE_def CARDINAL_GAP_def BOTTOM_ZONE_INSET_def MAX_DESC_WIDTH_def
  LINE_GAP_def RIGHT_COLUMN_W_def PRIMARY_MAX_W_def

lemma within_cf:
  assumes wb: "widths_bounded env" and hb: "heights_bounded env"
  shows "all_calls (within_region x y 240 200) (render_body_clean_final env x y 240 200 wd cd)"
  unfolding render_body_clean_final_def Let_def
  apply (intro all_calls_intros all_calls_try_alt_codes all_calls_draw_desc_lines)
  apply (auto simp: within_region_def clean_final_consts
      dest!: text_width_bounds[OF wb] text_height_bounds[OF hb] textbbox_height_bounds[OF hb]
        wrapped_single[OF wb] wrapped_single[OF wb, unfolded MAX_DESC_WIDTH_def])
     apply (auto simp: act_simps clean_final_consts split: if_splits option.splits sum.splits)
  done

text \<open>
  C3, as the code has it. In every version, for the module geometry of 240 by 200, when
  every measured text width lies between 0 and the maximum description width of 172
  and every measured text height lies between 0 and 144, each text anchor and each icon
  corner that the body of \<open>render\<close> computes lies within the module's region. With
  widths so bounded the description is never wrapped, so the bound on the heights is
  the one the row below the speed needs: 20 + 144 + 36 = 200.
\<close>

theorem placements_within_region:
  assumes "widths_bounded env" and "heights_bounded env"
  shows "\<forall>c\<in>set (calls (render_body v env x y 240 200 wd cd)). within_region x y 240 200 c"
proof (cases v)
  case Layout_fix_0815
  then show ?thesis using within_0815[of x y env wd cd] by (simp add: all_calls_def)
next
  case Layout_fix_0817
  then show ?thesis using within_0817[of x y env wd cd] by (simp add: all_calls_def)
next
  case Text_bounds_fix
  then show ?thesis using within_tbf[OF assms(1), of x y wd cd] by (simp add: all_calls_def)
next
  case Clean_final
  then show ?thesis using within_cf[OF assms, of x y wd cd] by (simp add: all_calls_def)
qed

lemma demo_env_widths: "widths_bounded demo_env"
  by (simp add: widths_bounded_def demo_env_sel MAX_DESC_WIDTH_def)

lemma demo_env_heights: "heights_bounded demo_env"
  by (simp add: heights_bounded_def demo_env_sel)

lemmas eval_simps =
  Let_def act_simps demo_data_def ms_text_of_def fonts_get_def clean_final_consts
  MAX_DESC_LINES_def text_width_def text_height_def bbox_0_def bbox_1_def bbox_2_def bbox_3_def

text \<open>The example station with glyphs a hundred pixels high.\<close>

definition high_env :: "(real, real, string, string) collaborators" where
  "high_env = demo_env
     \<lparr>textbbox := (\<lambda>origin t font. Inr (0, 0, min 172 (10 * int (length t)), 100))\<rparr>"

lemma high_env_sel:
  "safe_get_value high_env = (\<lambda>m key dflt conv. case m key of Some v \<Rightarrow> Inr v | None \<Rightarrow> Inr dflt)"
  "get_wind_description_swedish high_env = (\<lambda>speed. Inr (ascii ''Svag vind''))"
  "get_wind_direction_info high_env = (\<lambda>direction. Inr (ascii ''SV'', ascii ''sw''))"
  "get_system_icon high_env = (\<lambda>name size. Inr (Some name))"
  "get_wind_icon high_env = (\<lambda>code size. Inr (Some ''wi-wind''))"
  "fonts high_env = [''large_main'' \<mapsto> ''L'', ''small_main'' \<mapsto> ''S'']"
  "textbbox high_env = (\<lambda>origin t font. Inr (0, 0, min 172 (10 * int (length t)), 100))"
  "get_text_bounds high_env = (\<lambda>t font. Inr (min 172 (10 * int (length t)), 20))"
  "draw_raises high_env = (\<lambda>c. None)"
  "format_1f high_env = (\<lambda>v. ascii ''4.8'')"
  by (simp_all add: high_env_def demo_env_sel)

lemma high_env_widths: "widths_bounded high_env"
  by (simp add: widths_bounded_def high_env_sel MAX_DESC_WIDTH_def)

lemma high_env_heights: "heights_bounded high_env"
  by (simp add: heights_bounded_def high_env_sel)

lemma wrap_high:
  "wrap2_ellips (\<lambda>t. Inr (min 172 (10 * int (length t)))) (ascii ''Svag vind'') 172 2
     = Inr [ascii ''Svag vind'']"
  by (simp add: wrap2_ellips_def py_split_def ascii_def is_space_def space_def
      py_strip_def py_lstrip_def py_rstrip_def slice_to_def)

lemma calls_clean_final_high:
  "calls (render_body Clean_final high_env 0 0 240 200 demo_data Map.empty) =
     [Rectangle (2, 2) (238, 198) 0 2,
      Text_with_fallback (20, 20) (ascii ''4.8 m/s'') (Some ''L'') 0,
      Text_with_fallback (20, 156) (ascii ''Svag vind'') (Some ''S'') 0,
      Paste_icon ''strong-wind'' 184 10,
      Paste_icon ''wi-wind'' 90 148,
      Text_with_fallback (130, 114) (ascii ''SV'') (Some ''S'') 0]"
  by (simp add: render_body_clean_final_def high_env_sel wrap_high eval_simps)
    (simp add: ascii_def)

theorem placements_within_region_witness:
  "widths_bounded high_env \<and> heights_bounded high_env
   \<and> calls (render_body Clean_final high_env 0 0 240 200 demo_data Map.empty) =
     [Rectangle (2, 2) (238, 198) 0 2,
      Text_with_fallback (20, 20) (ascii ''4.8 m/s'') (Some ''L'') 0,
      Text_with_fallback (20, 156) (ascii ''Svag vind'') (Some ''S'') 0,
      Paste_icon ''strong-wind'' 184 10,
      Paste_icon ''wi-wind'' 90 148,
      Text_with_fallback (130, 114) (ascii ''SV'') (Some ''S'') 0]
   \<and> list_all (within_region 0 0 240 200)
        (calls (render_body Clean_final high_env 0 0 240 200 demo_data Map.empty))"
  using placements_within_region[OF high_env_widths high_env_heights,
      of Clean_final 0 0 demo_data Map.empty]
    high_env_widths high_env_heights calls_clean_final_high
  by (simp add: list_all_iff del: render_body.simps)

text \<open>
  C3 as stated fails: it bounds the measured widths only. The clean-final version
  places the description below the speed at a distance that grows with the measured
  height of the speed text; with glyphs 145 pixels high and widths within the bound,
  the description is anchored at y = 201, below the module.
\<close>

definition tall_env :: "(real, real, string, string) collaborators" where
  "tall_env = demo_env\<lparr>textbbox := (\<lambda>origin t font. Inr (0, 0, 50, 145))\<rparr>"

lemma tall_env_sel:
  "safe_get_value tall_env = (\<lambda>m key dflt conv. case m key of Some v \<Rightarrow> Inr v | None \<Rightarrow> Inr dflt)"
  "get_wind_description_swedish tall_env = (\<lambda>speed. Inr (ascii ''Svag vind''))"
  "get_wind_direction_info tall_env = (\<lambda>direction. Inr (ascii ''SV'', ascii ''sw''))"
  "get_system_icon tall_env = (\<lambda>name size. Inr (Some name))"
  "get_wind_icon tall_env = (\<lambda>code size. Inr (Some ''wi-wind''))"
  "fonts tall_env = [''large_main'' \<mapsto> ''L'', ''small_main'' \<mapsto> ''S'']"
  "textbbox tall_env = (\<lambda>origin t font. Inr (0, 0, 50, 145))"
  "get_text_bounds tall_env = (\<lambda>t font. Inr (min 172 (10 * int (length t)), 20))"
  "draw_raises tall_env = (\<lambda>c. None)"
  "format_1f tall_env = (\<lambda>v. ascii ''4.8'')"
  by (simp_all add: tall_env_def demo_env_sel)

lemma wrap_tall:
  "wrap2_ellips (\<lambda>t. Inr 50) (ascii ''Svag vind'') 172 2 = Inr [ascii ''Svag vind'']"
  by (simp add: wrap2_ellips_def py_split_def ascii_def is_space_def space_def
      py_strip_def py_lstrip_def py_rstrip_def slice_to_def)

lemma calls_clean_final_tall:
  "calls (render_body Clean_final tall_env 0 0 240 200 demo_data Map.empty) =
     [Rectangle (2, 2) (238, 198) 0 2,
      Text_with_fallback (20, 20) (ascii ''4.8 m/s'') (Some ''L'') 0,
      Text_with_fallback (20, 201) (ascii ''Svag vind'') (Some ''S'') 0,
      Paste_icon ''strong-wind'' 184 10,
      Paste_icon ''wi-wind'' 75 148,
      Text_with_fallback (115, 91) (ascii ''SV'') (Some ''S'') 0]"
  by (simp add: render_body_clean_final_def tall_env_sel wrap_tall eval_simps)
    (simp add: ascii_def)

theorem placements_outside_counterexample:
  "widths_bounded tall_env
   \<and> Text_with_fallback (20, 201) (ascii ''Svag vind'') (Some ''S'') 0
       \<in> set (calls (render_body Clean_final tall_env 0 0 240 200 demo_data Map.empty))
   \<and> \<not> within_region 0 0 240 200
         (Text_with_fallback (20, 201) (ascii ''Svag vind'') (Some ''S'') 0)"
proof -
  have "widths_bounded tall_env"
    by (simp add: widths_bounded_def tall_env_sel MAX_DESC_WIDTH_def)
  moreover have "Text_with_fallback (20, 201) (ascii ''Svag vind'') (Some ''S'') 0
       \<in> set (calls (render_body Clean_final tall_env 0 0 240 200 demo_data Map.empty))"
    unfolding calls_clean_final_tall by simp
  moreover have "\<not> within_region 0 0 240 200
         (Text_with_fallback (20, 201) (ascii ''Svag vind'') (Some ''S'') 0)"
    by (simp add: within_region_def)
  ultimately show ?thesis by blast
qed

section \<open>The module frame\<close>

fun is_rectangle :: "('font, 'icon) draw_call \<Rightarrow> bool" where
  "is_rectangle (Rectangle p q outline wd) = True"
| "is_rectangle (Text p t font fill) = False"
| "is_rectangle (Text_with_fallback p t font fill) = False"
| "is_rectangle (Paste_icon icon px py) = False"

lemma no_rectangle_0815:
  "all_calls (\<lambda>c. \<not> is_rectangle c) (render_body_layout_fix_0815 env x y width height wd cd)"
  unfolding render_body_layout_fix_0815_def Let_def
  by (intro all_calls_intros) simp_all

lemma no_rectangle_0817:
  "all_calls (\<lambda>c. \<not> is_rectangle c) (render_body_layout_fix_0817 env x y width height wd cd)"
  unfolding render_body_layout_fix_0817_def Let_def
  by (intro all_calls_intros) simp_all

lemma calls_after_logger: "calls (bind_act (logger lvl msg) f) = calls (f ())"
  by (simp add: act_simps)

lemma calls_after_ask: "r = Inr a \<Longrightarrow> calls (bind_act (ask r) f) = calls (f a)"
  by (simp add: act_simps)

lemma take1_calls_issue: "take 1 (calls (bind_act (issue env c) f)) = [c]"
  by (simp add: act_simps)

lemma frame_first:
  assumes "safe_get_value env wd ''wind_speed'' 0 Float_type = Inr ws"
    and "safe_get_value env wd ''wind_direction'' 0 Float_type = Inr wdir"
    and "get_wind_description_swedish env ws = Inr desc"
    and "get_wind_direction_info env wdir = Inr info"
    and "v = Text_bounds_fix \<or> v = Clean_final"
  shows "take 1 (calls (render_body v env x y width height wd cd))
    = [Rectangle (x + 2, y + 2) (x + width - 2, y + height - 2) 0 2]"
proof -
  obtain short code where info: "info = (short, code)" by (cases info)
  from assms(5) show ?thesis
  proof
    assume "v = Text_bounds_fix"
    then show ?thesis
      by (simp only: render_body.simps render_body_text_bounds_fix_def calls_after_logger
          calls_after_ask[OF assms(1)] calls_after_ask[OF assms(2)] calls_after_ask[OF assms(3)]
          calls_after_ask[OF assms(4)[unfolded info]] prod.case take1_calls_issue)
  next
    assume "v = Clean_final"
    then show ?thesis
      by (simp only: render_body.simps render_body_clean_final_def calls_after_logger
          calls_after_ask[OF assms(1)] calls_after_ask[OF assms(2)] calls_after_ask[OF assms(3)]
          calls_after_ask[OF assms(4)[unfolded info]] prod.case take1_calls_issue)
  qed
qed

text \<open>
  C5, as the code has it. The bodies of the two \<open>layout_fix\<close> versions issue no rectangle
  call at all. The \<open>text_bounds_fix\<close> and \<open>clean_final\<close> versions issue the outline of the
  module frame, from (x + 2, y + 2) to (x + width - 2, y + height - 2), as their first
  draw call once the two data lookups and the two conversions have returned.
\<close>

theorem module_frame_by_version:
  "(v = Layout_fix_0815 \<or> v = Layout_fix_0817 \<longrightarrow>
      (\<forall>c\<in>set (calls (render_body v env x y width height wd cd)). \<not> is_rectangle c))
   \<and> (v = Text_bounds_fix \<or> v = Clean_final \<longrightarrow>
      safe_get_value env wd ''wind_speed'' 0 Float_type = Inr ws \<longrightarrow>
      safe_get_value env wd ''wind_direction'' 0 Float_type = Inr wdir \<longrightarrow>
      get_wind_description_swedish env ws = Inr desc \<longrightarrow>
      get_wind_direction_info env wdir = Inr info \<longrightarrow>
      take 1 (calls (render_body v env x y width height wd cd))
        = [Rectangle (x + 2, y + 2) (x + width - 2, y + height - 2) 0 2])"
  using no_rectangle_0815[of env x y width height wd cd]
    no_rectangle_0817[of env x y width height wd cd]
    frame_first[of env wd ws wdir desc info v x y width height cd]
  by (auto simp: all_calls_def)

lemma lookups_demo:
  "safe_get_value demo_env demo_data ''wind_speed'' 0 Float_type = Inr 4.8"
  "safe_get_value demo_env demo_data ''wind_direction'' 0 Float_type = Inr 225"
  "get_wind_description_swedish demo_env 4.8 = Inr (ascii ''Svag vind'')"
  "get_wind_direction_info demo_env 225 = Inr (ascii ''SV'', ascii ''sw'')"
  by (simp_all add: demo_env_sel demo_data_def)

lemma calls_0815_demo:
  "calls (render_body Layout_fix_0815 demo_env 0 0 240 200 demo_data Map.empty) =
     [Paste_icon ''strong-wind'' 96 15,
      Text_with_fallback (70, 75) (ascii ''4.8 m/s'') (Some ''S'') 0,
      Text_with_fallback (80, 115) (ascii ''Svag vind'') None 0,
      Paste_icon ''wi-wind'' 104 150,
      Text_with_fallback (144, 155) (ascii ''SV'') None 0]"
  by (simp add: render_body_layout_fix_0815_def demo_env_sel eval_simps)
    (simp add: ascii_def)

lemma outcome_0815_demo:
  "outcome (render_body Layout_fix_0815 demo_env 0 0 240 200 demo_data Map.empty) = Inr True"
  by (simp add: render_body_layout_fix_0815_def demo_env_sel eval_simps)

theorem module_frame_by_version_witness:
  "safe_get_value demo_env demo_data ''wind_speed'' 0 Float_type = Inr 4.8
   \<and> safe_get_value demo_env demo_data ''wind_direction'' 0 Float_type = Inr 225
   \<and> get_wind_description_swedish demo_env 4.8 = Inr (ascii ''Svag vind'')
   \<and> get_wind_direction_info demo_env 225 = Inr (ascii ''SV'', ascii ''sw'')
   \<and> take 1 (calls (render_body Clean_final demo_env 0 0 240 200 demo_data Map.empty))
       = [Rectangle (2, 2) (238, 198) 0 2]
   \<and> list_all (\<lambda>c. \<not> is_rectangle c)
        (calls (render_body Layout_fix_0815 demo_env 0 0 240 200 demo_data Map.empty))"
proof -
  from module_frame_by_version[of Clean_final demo_env 0 0 240 200 demo_data Map.empty
      "4.8" 225 "ascii ''Svag vind''" "(ascii ''SV'', ascii ''sw'')"] lookups_demo
  have frame: "take 1 (calls (render_body Clean_final demo_env 0 0 240 200 demo_data Map.empty))
       = [Rectangle (2, 2) (238, 198) 0 2]"
    by simp
  from module_frame_by_version[of Layout_fix_0815 demo_env 0 0 240 200 demo_data Map.empty]
  have none: "list_all (\<lambda>c. \<not> is_rectangle c)
        (calls (render_body Layout_fix_0815 demo_env 0 0 240 200 demo_data Map.empty))"
    by (simp add: list_all_iff)
  show ?thesis by (intro conjI lookups_demo frame none)
qed

text \<open>
  C5 as stated fails: the first \<open>layout_fix\<close> version renders the example station
  successfully without a single rectangle call.
\<close>

theorem no_frame_counterexample:
  "outcome (render_act Layout_fix_0815 demo_env 0 0 240 200 demo_data Map.empty) = Inr True
   \<and> filter is_rectangle (calls (render_act Layout_fix_0815 demo_env 0 0 240 200 demo_data Map.empty))
       = []"
proof -
  have "calls (render_act Layout_fix_0815 demo_env 0 0 240 200 demo_data Map.empty)
      = calls (render_body Layout_fix_0815 demo_env 0 0 240 200 demo_data Map.empty)"
    by (simp add: render_act_def calls_try_except outcome_0815_demo del: render_body.simps)
  then have "filter is_rectangle
      (calls (render_act Layout_fix_0815 demo_env 0 0 240 200 demo_data Map.empty)) = []"
    by (simp add: calls_0815_demo del: render_body.simps)
  moreover have "outcome (render_act Layout_fix_0815 demo_env 0 0 240 200 demo_data Map.empty) = Inr True"
    by (simp add: outcome_render_act outcome_0815_demo del: render_body.simps)
  ultimately show ?thesis by simp
qed

section \<open>Line wrapping of the description\<close>

text \<open>The texts drawn through \<open>draw_text_with_fallback\<close>, in order.\<close>

fun fallback_text :: "('font, 'icon) draw_call \<Rightarrow> pystr list" where
  "fallback_text (Rectangle p q outline wd) = []"
| "fallback_text (Text p t font fill) = []"
| "fallback_text (Text_with_fallback p t font fill) = [t]"
| "fallback_text (Paste_icon icon px py) = []"

definition texts_with_fallback :: "('font, 'icon) draw_call list \<Rightarrow> pystr list" where
  "texts_with_fallback cs = concat (map fallback_text cs)"

lemma texts_with_fallback_simps:
  "texts_with_fallback [] = []"
  "texts_with_fallback (c # cs) = fallback_text c @ texts_with_fallback cs"
  "texts_with_fallback (cs @ ds) = texts_with_fallback cs @ texts_with_fallback ds"
  by (simp_all add: texts_with_fallback_def)

text \<open>
  After the texts \<open>pre\<close> drawn so far, a computation that returns has drawn the texts
  \<open>ts\<close> in all.
\<close>

definition texts_ok :: "pystr list \<Rightarrow> ('a, ('font, 'icon) draw_call) act \<Rightarrow> pystr list \<Rightarrow> bool" where
  "texts_ok pre m ts \<longleftrightarrow>
     (\<forall>b. outcome m = Inr b \<longrightarrow> pre @ texts_with_fallback (calls m) = ts)"

lemma bind_ask_Inr: "bind_act (ask (Inr v)) f = f v"
  by (simp add: bind_act_def ask_def outcome_def calls_def logs_def)

lemma texts_draw_desc_lines:
  "outcome (draw_desc_lines env dx dy font i lines) = Inr u
     \<Longrightarrow> texts_with_fallback (calls (draw_desc_lines env dx dy font i lines)) = lines"
  by (induction lines arbitrary: i)
    (auto simp: act_simps texts_with_fallback_simps Let_def split: sum.splits option.splits)

lemma texts_ok_bind_text:
  "(\<And>a. texts_ok (pre @ [t]) (f a) ts)
     \<Longrightarrow> texts_ok pre (bind_act (issue env (Text_with_fallback p t font fill)) f) ts"
  by (auto simp: texts_ok_def act_simps texts_with_fallback_simps split: sum.splits option.splits)

lemma texts_ok_bind_lines:
  assumes "\<And>a. texts_ok (pre @ lines) (f a) ts"
  shows "texts_ok pre (bind_act (draw_desc_lines env dx dy font i lines) f) ts"
proof -
  have "pre @ texts_with_fallback (calls (bind_act (draw_desc_lines env dx dy font i lines) f)) = ts"
    if "outcome (bind_act (draw_desc_lines env dx dy font i lines) f) = Inr b" for b
  proof (cases "outcome (draw_desc_lines env dx dy font i lines)")
    case (Inl e)
    with that show ?thesis by (simp add: outcome_bind)
  next
    case (Inr u)
    with that have "outcome (f u) = Inr b" by (simp add: outcome_bind)
    with assms[of u] have "(pre @ lines) @ texts_with_fallback (calls (f u)) = ts"
      by (simp add: texts_ok_def)
    with Inr texts_draw_desc_lines[OF Inr] show ?thesis
      by (simp add: calls_bind texts_with_fallback_simps)
  qed
  then show ?thesis by (simp add: texts_ok_def)
qed

lemma texts_ok_bind_silent:
  assumes "texts_with_fallback (calls m) = []"
    and "\<And>a. outcome m = Inr a \<Longrightarrow> texts_ok pre (f a) ts"
  shows "texts_ok pre (bind_act m f) ts"
proof -
  have "pre @ texts_with_fallback (calls (bind_act m f)) = ts"
    if "outcome (bind_act m f) = Inr b" for b
  proof (cases "outcome m")
    case (Inl e)
    with that show ?thesis by (simp add: outcome_bind)
  next
    case (Inr a)
    with that have "outcome (f a) = Inr b" by (simp add: outcome_bind)
    with assms(2)[OF Inr] have "pre @ texts_with_fallback (calls (f a)) = ts"
      by (simp add: texts_ok_def)
    with Inr assms(1) show ?thesis
      by (simp add: calls_bind texts_with_fallback_simps)
  qed
  then show ?thesis by (simp add: texts_ok_def)
qed

lemma texts_ok_ret: "pre = ts \<Longrightarrow> texts_ok pre (ret a) ts"
  by (simp add: texts_ok_def act_simps texts_with_fallback_simps)

lemmas texts_ok_intros =
  texts_ok_bind_text texts_ok_bind_lines texts_ok_bind_silent texts_ok_ret

lemma texts_option_paste:
  "texts_with_fallback (calls (case v of Some icon \<Rightarrow> issue env (Paste_icon icon px py) | None \<Rightarrow> ret ())) = []"
  by (cases v) (simp_all add: act_simps texts_with_fallback_simps)

lemma texts_icon_part:
  "texts_with_fallback (calls (case wind_icon of
       Some icon \<Rightarrow>
         bind_act (ask r) (\<lambda>ms_width.
         bind_act (if c ms_width then bind_act (logger lvl msg) (\<lambda>_. ret (p ms_width)) else ret q) (\<lambda>icon_y.
         bind_act (issue env (Paste_icon icon ix icon_y)) (\<lambda>_. logger lvl2 msg2)))
     | None \<Rightarrow> logger lvl3 msg3)) = []"
  by (auto simp: act_simps texts_with_fallback_simps split: sum.splits option.splits)

lemma texts_first_icon_part:
  "texts_with_fallback (calls (case first_icon of
       Some icon \<Rightarrow> bind_act (logger lvl msg) (\<lambda>_. ret (Some icon))
     | None \<Rightarrow> bind_act (logger lvl2 msg2) (\<lambda>_. try_alt_codes env codes))) = []"
  by (cases first_icon) (simp_all add: act_simps texts_with_fallback_simps calls_try_alt_codes)

lemma texts_arrow_part:
  "texts_with_fallback (calls (case cardinal_icon of
       Some icon \<Rightarrow>
         bind_act (issue env (Paste_icon icon px py)) (\<lambda>_.
         bind_act (logger lvl msg) (\<lambda>_. ret r))
     | None \<Rightarrow>
         bind_act (logger lvl2 msg2) (\<lambda>_.
         bind_act (issue env (Text p t font fill)) (\<lambda>_. ret r2)))) = []"
  by (cases cardinal_icon)
    (auto simp: act_simps texts_with_fallback_simps split: sum.splits option.splits)

lemmas texts_silent =
  act_simps texts_with_fallback_simps texts_option_paste texts_icon_part
  texts_first_icon_part texts_arrow_part

lemma texts_0815:
  assumes "safe_get_value env wd ''wind_speed'' 0 Float_type = Inr ws"
    and "safe_get_value env wd ''wind_direction'' 0 Float_type = Inr wdir"
    and "get_wind_description_swedish env ws = Inr desc"
    and "get_wind_direction_info env wdir = Inr (short, code)"
  shows "texts_ok [] (render_body_layout_fix_0815 env x y width height wd cd)
    [ms_text_of env ws, desc, short]"
  unfolding render_body_layout_fix_0815_def
  apply (simp only: Let_def assms bind_ask_Inr prod.case)
  apply (intro texts_ok_intros)
  apply (simp_all add: texts_silent)
  done

lemma texts_0817:
  assumes "safe_get_value env wd ''wind_speed'' 0 Float_type = Inr ws"
    and "safe_get_value env wd ''wind_direction'' 0 Float_type = Inr wdir"
    and "get_wind_description_swedish env ws = Inr desc"
    and "get_wind_direction_info env wdir = Inr (short, code)"
  shows "texts_ok [] (render_body_layout_fix_0817 env x y width height wd cd)
    [ms_text_of env ws, desc, short]"
  unfolding render_body_layout_fix_0817_def
  apply (simp only: Let_def assms bind_ask_Inr prod.case)
  apply (intro texts_ok_intros)
  apply (simp_all add: texts_silent)
  done

lemma texts_tbf:
  assumes "safe_get_value env wd ''wind_speed'' 0 Float_type = Inr ws"
    and "safe_get_value env wd ''wind_direction'' 0 Float_type = Inr wdir"
    and "get_wind_description_swedish env ws = Inr desc"
    and "get_wind_direction_info env wdir = Inr (short, code)"
  shows "texts_ok [] (render_body_text_bounds_fix env x y width height wd cd)
    [ms_text_of env ws, desc, short]"
  unfolding render_body_text_bounds_fix_def
  apply (simp only: Let_def assms bind_ask_Inr prod.case)
  apply (intro texts_ok_intros)
  apply (simp_all add: texts_silent)
  done

lemma texts_cf:
  assumes "safe_get_value env wd ''wind_speed'' 0 Float_type = Inr ws"
    and "safe_get_value env wd ''wind_direction'' 0 Float_type = Inr wdir"
    and "get_wind_description_swedish env ws = Inr desc"
    and "get_wind_direction_info env wdir = Inr (short, code)"
    and "wrap2_ellips (\<lambda>t. text_width env t
            (fonts_get (fonts env) ''small_main'' (fonts_get (fonts env) ''small_desc'' None)))
            desc MAX_DESC_WIDTH MAX_DESC_LINES = Inr lines"
  shows "texts_ok [] (render_body_clean_final env x y width height wd cd)
          (ms_text_of env ws # lines @ [short])"
  unfolding render_body_clean_final_def
  apply (simp only: Let_def assms bind_ask_Inr prod.case)
  apply (intro texts_ok_intros)
  apply (simp_all add: texts_silent)
  done

text \<open>A computation that ends in an exception.\<close>

definition raises :: "('a, 'c) act \<Rightarrow> bool" where
  "raises m \<longleftrightarrow> (\<exists>e. outcome m = Inl e)"

lemma raises_bind_ask: "raises (bind_act (ask (Inl e)) f)"
  by (simp add: raises_def act_simps)

lemma raises_bind: "(\<And>a. raises (f a)) \<Longrightarrow> raises (bind_act m f)"
  by (cases "outcome m") (auto simp: raises_def act_simps)

lemma wrap_returns_on_success:
  assumes "safe_get_value env wd ''wind_speed'' 0 Float_type = Inr ws"
    and "safe_get_value env wd ''wind_direction'' 0 Float_type = Inr wdir"
    and "get_wind_description_swedish env ws = Inr desc"
    and "get_wind_direction_info env wdir = Inr (short, code)"
    and "outcome (render_body_clean_final env x y width height wd cd) = Inr b"
  shows "\<exists>lines. wrap2_ellips (\<lambda>t. text_width env t
            (fonts_get (fonts env) ''small_main'' (fonts_get (fonts env) ''small_desc'' None)))
            desc MAX_DESC_WIDTH MAX_DESC_LINES = Inr lines"
proof (cases "wrap2_ellips (\<lambda>t. text_width env t
            (fonts_get (fonts env) ''small_main'' (fonts_get (fonts env) ''small_desc'' None)))
            desc MAX_DESC_WIDTH MAX_DESC_LINES")
  case (Inr lines)
  then show ?thesis by simp
next
  case (Inl e)
  have "raises (render_body_clean_final env x y width height wd cd)"
    unfolding render_body_clean_final_def
    apply (simp only: Let_def assms(1-4) Inl bind_ask_Inr prod.case)
    apply (intro raises_bind_ask raises_bind)
    done
  with assms(5) show ?thesis by (simp add: raises_def)
qed

text \<open>
  C2, as the code has it. On a successful run with the given speed, description and
  short direction label, the clean-final version draws, through
  \<open>draw_text_with_fallback\<close>, the speed text, then the lines that \<open>wrap2_ellips\<close> makes of
  the description (at most 172 wide, at most two lines), then the label. The three
  earlier versions draw the speed text, the description unwrapped in one call, and the
  label: they have no line-wrapping routine.
\<close>

theorem description_wrapping_by_version:
  assumes "safe_get_value env wd ''wind_speed'' 0 Float_type = Inr ws"
    and "safe_get_value env wd ''wind_direction'' 0 Float_type = Inr wdir"
    and "get_wind_description_swedish env ws = Inr desc"
    and "get_wind_direction_info env wdir = Inr (short, code)"
    and "outcome (render_body v env x y width height wd cd) = Inr b"
  shows "if v = Clean_final
         then \<exists>lines. wrap2_ellips (\<lambda>t. text_width env t
                  (fonts_get (fonts env) ''small_main'' (fonts_get (fonts env) ''small_desc'' None)))
                  desc MAX_DESC_WIDTH MAX_DESC_LINES = Inr lines
                \<and> texts_with_fallback (calls (render_body v env x y width height wd cd))
                    = ms_text_of env ws # lines @ [short]
         else texts_with_fallback (calls (render_body v env x y width height wd cd))
                = [ms_text_of env ws, desc, short]"
proof (cases v)
  case Layout_fix_0815
  with texts_0815[OF assms(1-4), of x y width height cd] assms(5)
  show ?thesis by (simp add: texts_ok_def)
next
  case Layout_fix_0817
  with texts_0817[OF assms(1-4), of x y width height cd] assms(5)
  show ?thesis by (simp add: texts_ok_def)
next
  case Text_bounds_fix
  with texts_tbf[OF assms(1-4), of x y width height cd] assms(5)
  show ?thesis by (simp add: texts_ok_def)
next
  case Clean_final
  with assms(5) have ok: "outcome (render_body_clean_final env x y width height wd cd) = Inr b"
    by simp
  from wrap_returns_on_success[OF assms(1-4) ok] obtain lines
    where lines: "wrap2_ellips (\<lambda>t. text_width env t
            (fonts_get (fonts env) ''small_main'' (fonts_get (fonts env) ''small_desc'' None)))
            desc MAX_DESC_WIDTH MAX_DESC_LINES = Inr lines" by blast
  from texts_cf[OF assms(1-4) lines, of x y width height cd] ok
  have "texts_with_fallback (calls (render_body_clean_final env x y width height wd cd))
      = ms_text_of env ws # lines @ [short]"
    by (simp add: texts_ok_def)
  with lines Clean_final show ?thesis by simp
qed

definition narrow_env :: "(real, real, string, string) collaborators" where
  "narrow_env = demo_env\<lparr>textbbox := (\<lambda>origin t font. Inr (0, 0, 100 * int (length t), 20))\<rparr>"

lemma narrow_env_sel:
  "safe_get_value narrow_env = (\<lambda>m key dflt conv. case m key of Some v \<Rightarrow> Inr v | None \<Rightarrow> Inr dflt)"
  "get_wind_description_swedish narrow_env = (\<lambda>speed. Inr (ascii ''Svag vind''))"
  "get_wind_direction_info narrow_env = (\<lambda>direction. Inr (ascii ''SV'', ascii ''sw''))"
  "get_system_icon narrow_env = (\<lambda>name size. Inr (Some name))"
  "get_wind_icon narrow_env = (\<lambda>code size. Inr (Some ''wi-wind''))"
  "fonts narrow_env = [''large_main'' \<mapsto> ''L'', ''small_main'' \<mapsto> ''S'']"
  "textbbox narrow_env = (\<lambda>origin t font. Inr (0, 0, 100 * int (length t), 20))"
  "draw_raises narrow_env = (\<lambda>c. None)"
  "format_1f narrow_env = (\<lambda>v. ascii ''4.8'')"
  by (simp_all add: narrow_env_def demo_env_sel)

lemma wrap_narrow:
  "wrap2_ellips (\<lambda>t. Inr (100 * int (length t))) (ascii ''Svag vind'') 172 2
     = Inr [ascii ''Svag'', ascii ''vin'' @ [ellipsis]]"
  by (simp add: wrap2_ellips_def py_split_def ascii_def is_space_def space_def
      py_strip_def py_lstrip_def py_rstrip_def shrink.simps ellipsis_def)

lemma wrap_narrow_env:
  "wrap2_ellips (\<lambda>t. text_width narrow_env t font) (ascii ''Svag vind'')
      MAX_DESC_WIDTH MAX_DESC_LINES
     = Inr [ascii ''Svag'', ascii ''vin'' @ [ellipsis]]"
  by (simp add: text_width_def narrow_env_sel bbox_0_def bbox_2_def MAX_DESC_WIDTH_def
      MAX_DESC_LINES_def wrap_narrow)

lemma lookups_narrow:
  "safe_get_value narrow_env demo_data ''wind_speed'' 0 Float_type = Inr 4.8"
  "safe_get_value narrow_env demo_data ''wind_direction'' 0 Float_type = Inr 225"
  "get_wind_description_swedish narrow_env 4.8 = Inr (ascii ''Svag vind'')"
  "get_wind_direction_info narrow_env 225 = Inr (ascii ''SV'', ascii ''sw'')"
  by (simp_all add: narrow_env_sel demo_data_def)

lemma outcome_clean_final_narrow:
  "outcome (render_body Clean_final narrow_env 0 0 240 200 demo_data Map.empty) = Inr True"
  by (simp add: render_body_clean_final_def narrow_env_sel wrap_narrow eval_simps)

lemma outcome_0815_narrow:
  "outcome (render_body Layout_fix_0815 narrow_env 0 0 240 200 demo_data Map.empty) = Inr True"
  by (simp add: render_body_layout_fix_0815_def narrow_env_sel eval_simps)

theorem description_wrapping_by_version_witness:
  "safe_get_value narrow_env demo_data ''wind_speed'' 0 Float_type = Inr 4.8
   \<and> safe_get_value narrow_env demo_data ''wind_direction'' 0 Float_type = Inr 225
   \<and> get_wind_description_swedish narrow_env 4.8 = Inr (ascii ''Svag vind'')
   \<and> get_wind_direction_info narrow_env 225 = Inr (ascii ''SV'', ascii ''sw'')
   \<and> outcome (render_body Clean_final narrow_env 0 0 240 200 demo_data Map.empty) = Inr True
   \<and> texts_with_fallback (calls (render_body Clean_final narrow_env 0 0 240 200 demo_data Map.empty))
       = [ascii ''4.8 m/s'', ascii ''Svag'', ascii ''vin'' @ [ellipsis], ascii ''SV'']
   \<and> outcome (render_body Layout_fix_0817 narrow_env 0 0 240 200 demo_data Map.empty) = Inr True
   \<and> texts_with_fallback (calls (render_body Layout_fix_0817 narrow_env 0 0 240 200 demo_data Map.empty))
       = [ascii ''4.8 m/s'', ascii ''Svag vind'', ascii ''SV'']"
proof -
  have ms: "ms_text_of narrow_env v = ascii ''4.8 m/s''" for v
    by (simp add: ms_text_of_def narrow_env_sel ascii_def)
  have ok17: "outcome (render_body Layout_fix_0817 narrow_env 0 0 240 200 demo_data Map.empty) = Inr True"
    by (simp add: render_body_layout_fix_0817_def narrow_env_sel eval_simps)
  from description_wrapping_by_version[OF lookups_narrow outcome_clean_final_narrow]
    wrap_narrow_env
  have cf: "texts_with_fallback (calls (render_body Clean_final narrow_env 0 0 240 200 demo_data Map.empty))
       = [ascii ''4.8 m/s'', ascii ''Svag'', ascii ''vin'' @ [ellipsis], ascii ''SV'']"
    by (simp add: ms)
  from description_wrapping_by_version[OF lookups_narrow ok17]
  have l17: "texts_with_fallback (calls (render_body Layout_fix_0817 narrow_env 0 0 240 200 demo_data Map.empty))
       = [ascii ''4.8 m/s'', ascii ''Svag vind'', ascii ''SV'']"
    by (simp add: ms)
  show ?thesis
    by (intro conjI lookups_narrow outcome_clean_final_narrow cf ok17 l17)
qed

text \<open>
  C2 as stated fails: with glyphs 100 pixels wide, wrapping would split the description
  into two lines with an ellipsis, but the first \<open>layout_fix\<close> version draws it whole.
\<close>

lemma calls_0815_narrow:
  "calls (render_body Layout_fix_0815 narrow_env 0 0 240 200 demo_data Map.empty) =
     [Paste_icon ''strong-wind'' 96 15,
      Text_with_fallback (70, 75) (ascii ''4.8 m/s'') (Some ''S'') 0,
      Text_with_fallback (80, 115) (ascii ''Svag vind'') None 0,
      Paste_icon ''wi-wind'' 104 150,
      Text_with_fallback (144, 155) (ascii ''SV'') None 0]"
  by (simp add: render_body_layout_fix_0815_def narrow_env_sel eval_simps)
    (simp add: ascii_def)

theorem description_not_wrapped_counterexample:
  "wrap2_ellips (\<lambda>t. text_width narrow_env t None) (ascii ''Svag vind'')
      MAX_DESC_WIDTH MAX_DESC_LINES = Inr [ascii ''Svag'', ascii ''vin'' @ [ellipsis]]
   \<and> outcome (render_body Layout_fix_0815 narrow_env 0 0 240 200 demo_data Map.empty) = Inr True
   \<and> texts_with_fallback (calls (render_body Layout_fix_0815 narrow_env 0 0 240 200 demo_data Map.empty))
       = [ascii ''4.8 m/s'', ascii ''Svag vind'', ascii ''SV'']"
proof -
  have "texts_with_fallback (calls (render_body Layout_fix_0815 narrow_env 0 0 240 200 demo_data Map.empty))
       = [ascii ''4.8 m/s'', ascii ''Svag vind'', ascii ''SV'']"
    unfolding calls_0815_narrow by (simp add: texts_with_fallback_simps)
  with wrap_narrow_env[of None] outcome_0815_narrow show ?thesis by simp
qed

section \<open>Data read and strings displayed\<close>
















































end
